theory Spec2Isabelle
  imports Main "HOL-Library.Word" "HOL-Library.Sublist"
begin

section \<open>The beforeinput handler of the editor component\<close>

text \<open>
  A shallow embedding of \<^verbatim>\<open>src/component/handlers/edit/editOnBeforeInput.js\<close>.
  The handler is imperative: it mutates fields of the editor object, calls
  \<^verbatim>\<open>editor.update\<close>, \<^verbatim>\<open>e.preventDefault\<close> and \<^verbatim>\<open>setImmediate\<close>, and may throw.
  The model threads a run state through the statements of the handler: the editor's
  fields, the log of the calls made so far, the heuristics evaluated so far and the
  exception that ended the run, if any.

  The modules the handler requires (\<^verbatim>\<open>EditorState\<close>, \<^verbatim>\<open>DraftModifier\<close>,
  \<^verbatim>\<open>BlockTree\<close>, \<^verbatim>\<open>UserAgent\<close>, the selection queries) are not part of the file.
  They are parameters of the model, collected in the record \<open>deps\<close>; the editor's method
  \<^verbatim>\<open>update\<close> and its prop \<^verbatim>\<open>handleBeforeInput\<close> are parameters too, collected in
  \<open>component\<close>.
\<close>

subsection \<open>Strings\<close>

text \<open>A JavaScript string is a sequence of 16-bit code units.\<close>

type_synonym jsstring = "16 word list"

definition js :: "string \<Rightarrow> jsstring" where
  "js s = map (\<lambda>c. word_of_nat (of_char c)) s"

text \<open>\<^verbatim>\<open>s.slice(start, end)\<close> for non-negative integer arguments.\<close>

definition slice :: "jsstring \<Rightarrow> nat \<Rightarrow> nat \<Rightarrow> jsstring" where
  "slice s start end = take (end - start) (drop start s)"

text \<open>\<^verbatim>\<open>s.indexOf(c)\<close> for a search string of one code unit: the first index, or -1.\<close>

fun indexOf :: "jsstring \<Rightarrow> 16 word \<Rightarrow> int" where
  "indexOf [] c = -1"
| "indexOf (x # xs) c =
     (if x = c then 0 else (let r = indexOf xs c in if r = -1 then -1 else r + 1))"

subsection \<open>The native DOM selection\<close>

text \<open>
  The part of the DOM the handler reads: a node with its type, name and value, its parent
  and its first child. A property that is \<^verbatim>\<open>null\<close> is \<open>None\<close>.
\<close>

datatype dom_node = DomNode
  (nodeType: nat)
  (nodeName: jsstring)
  (nodeValue: "jsstring option")
  (parentNode: "dom_node option")
  (firstChild: "dom_node option")

definition TEXT_NODE :: nat where
  "TEXT_NODE = 3"

record native_selection =
  anchorNode :: "dom_node option"

subsection \<open>The editor, the event and the collaborators\<close>

text \<open>The fields of the editor object that the handler reads and writes.\<close>

record 'es editor =
  pendingStateFromBeforeInput :: "'es option"
  latestEditorState :: 'es
  latestCommittedEditorState :: 'es

text \<open>
  The editor's \<^verbatim>\<open>update\<close> method and its \<^verbatim>\<open>handleBeforeInput\<close> prop (absent:
  \<open>None\<close>). Both are code of the component and of its user: they may change the editor's
  fields, so they transform the editor.
\<close>

record ('es, 'h) component =
  editor_update :: "'es \<Rightarrow> 'es editor \<Rightarrow> 'es editor"
  handleBeforeInput :: "(jsstring \<Rightarrow> 'es \<Rightarrow> 'es editor \<Rightarrow> 'h \<times> 'es editor) option"

text \<open>The event: \<^verbatim>\<open>e.data\<close> is a string, or \<^verbatim>\<open>null\<close>.\<close>

record event =
  data :: "jsstring option"

text \<open>The object literal given to \<^verbatim>\<open>selection.merge\<close>.\<close>

record offsets =
  anchorOffset :: nat
  focusOffset :: nat

text \<open>
  The required modules. \<open>'es\<close> is the editor state, \<open>'cs\<close> the content state,
  \<open>'sel\<close> the selection state, \<open>'sty\<close> an inline style, \<open>'bt\<close> a block tree,
  \<open>'d\<close> a text direction and \<open>'h\<close> what the \<^verbatim>\<open>handleBeforeInput\<close> prop returns.
\<close>

record ('es, 'cs, 'sel, 'sty, 'bt, 'd, 'h) deps =
  isFirefox :: bool
  getCurrentContent :: "'es \<Rightarrow> 'cs"
  getSelection :: "'es \<Rightarrow> 'sel"
  getCurrentInlineStyle :: "'es \<Rightarrow> 'sty"
  getBlockTree :: "'es \<Rightarrow> jsstring \<Rightarrow> 'bt"
  getDirectionMap :: "'es \<Rightarrow> (jsstring \<rightharpoonup> 'd) option"
  push :: "'es \<Rightarrow> 'cs \<Rightarrow> jsstring \<Rightarrow> 'es"
  set_nativelyRenderedContent :: "'es \<Rightarrow> 'cs \<Rightarrow> 'es"
  forceSelection :: "'es \<Rightarrow> 'sel \<Rightarrow> 'es"
  getPlainText :: "'cs \<Rightarrow> jsstring"
  getStartOffset :: "'sel \<Rightarrow> nat"
  getEndOffset :: "'sel \<Rightarrow> nat"
  getAnchorKey :: "'sel \<Rightarrow> jsstring"
  isCollapsed :: "'sel \<Rightarrow> bool"
  merge :: "'sel \<Rightarrow> offsets \<Rightarrow> 'sel"
  DraftModifier_replaceText :: "'cs \<Rightarrow> 'sel \<Rightarrow> jsstring \<Rightarrow> 'sty \<Rightarrow> jsstring option \<Rightarrow> 'cs"
  getFingerprint :: "'bt \<Rightarrow> jsstring"
  getEntityKeyForSelection :: "'cs \<Rightarrow> 'sel \<Rightarrow> jsstring option"
  isSelectionAtLeafStart :: "'es \<Rightarrow> bool"
  isEventHandled :: "'h \<Rightarrow> bool"

subsection \<open>The run state\<close>

datatype error = TypeError | NullThrows

datatype 'es effect = PreventDefault | Update 'es | ReplaceText 'es | SetImmediate

datatype heuristic =
  SelectionCollapsed | LeafStart | TabInSpan | FingerprintChanged | FirefoxQuickfind
  | DirectionChanged

text \<open>
  \<open>ed\<close>: the editor's fields. \<open>log\<close>: the calls made so far, in order; a call of the
  file's own \<^verbatim>\<open>replaceText\<close> is logged with the state it returned. \<open>performed\<close>: the
  heuristics evaluated so far, each with its outcome. \<open>thrown\<close>: the exception that
  ended the run.
\<close>

record 'es run =
  ed :: "'es editor"
  log :: "'es effect list"
  performed :: "(heuristic \<times> (error + bool)) list"
  thrown :: "error option"

definition call_update :: "('es, 'h) component \<Rightarrow> 'es \<Rightarrow> 'es run \<Rightarrow> 'es run" where
  "call_update C s r = r\<lparr>ed := editor_update C s (ed r), log := log r @ [Update s]\<rparr>"

definition call_preventDefault :: "'es run \<Rightarrow> 'es run" where
  "call_preventDefault r = r\<lparr>log := log r @ [PreventDefault]\<rparr>"

definition call_setImmediate :: "'es run \<Rightarrow> 'es run" where
  "call_setImmediate r = r\<lparr>log := log r @ [SetImmediate]\<rparr>"

definition set_pending :: "'es option \<Rightarrow> 'es run \<Rightarrow> 'es run" where
  "set_pending p r = r\<lparr>ed := (ed r)\<lparr>pendingStateFromBeforeInput := p\<rparr>\<rparr>"

subsection \<open>The functions of the file\<close>

definition FF_QUICKFIND_CHAR :: jsstring where
  "FF_QUICKFIND_CHAR = js [CHR 0x27]"

definition FF_QUICKFIND_LINK_CHAR :: jsstring where
  "FF_QUICKFIND_LINK_CHAR = js ''/''"

definition mustPreventDefaultForCharacter ::
  "('es, 'cs, 'sel, 'sty, 'bt, 'd, 'h) deps \<Rightarrow> jsstring \<Rightarrow> bool" where
  "mustPreventDefaultForCharacter D character =
     (isFirefox D \<and> (character = FF_QUICKFIND_CHAR \<or> character = FF_QUICKFIND_LINK_CHAR))"

definition replaceText ::
  "('es, 'cs, 'sel, 'sty, 'bt, 'd, 'h) deps \<Rightarrow> 'es \<Rightarrow> jsstring \<Rightarrow> 'sty \<Rightarrow> jsstring option \<Rightarrow> 'es" where
  "replaceText D editorState text inlineStyle entityKey =
     (let contentState = DraftModifier_replaceText D
            (getCurrentContent D editorState) (getSelection D editorState)
            text inlineStyle entityKey
      in push D editorState contentState (js ''insert-characters''))"

text \<open>
  Lines 81 to 84, and the body of the callback given to \<^verbatim>\<open>setImmediate\<close> (lines 227
  to 230): apply the pending state, if there is one, and clear it.
\<close>

definition flushPending :: "('es, 'h) component \<Rightarrow> 'es run \<Rightarrow> 'es run" where
  "flushPending C r =
     (case pendingStateFromBeforeInput (ed r) of
        None \<Rightarrow> r
      | Some s \<Rightarrow> set_pending None (call_update C s r))"

definition setImmediateCallback :: "('es, 'h) component \<Rightarrow> 'es run \<Rightarrow> 'es run" where
  "setImmediateCallback C r = flushPending C r"

text \<open>
  Lines 101 to 104: the prop is called only when it is present; \<open>True\<close> when it is
  present and reports the event as handled.
\<close>

definition callHandleBeforeInput ::
  "('es, 'cs, 'sel, 'sty, 'bt, 'd, 'h) deps \<Rightarrow> ('es, 'h) component \<Rightarrow> jsstring \<Rightarrow> 'es
     \<Rightarrow> 'es run \<Rightarrow> bool \<times> 'es run" where
  "callHandleBeforeInput D C chars editorState r =
     (case handleBeforeInput C of
        None \<Rightarrow> (False, r)
      | Some h \<Rightarrow> (let (v, ed') = h chars editorState (ed r)
                   in (isEventHandled D v, r\<lparr>ed := ed'\<rparr>)))"

text \<open>
  Lines 176 to 188. \<^verbatim>\<open>global.getSelection()\<close> is \<open>win\<close>. Reading a property of
  \<^verbatim>\<open>null\<close> throws a TypeError.
\<close>

definition tabInSpan :: "native_selection option \<Rightarrow> error + bool" where
  "tabInSpan win =
     (case win of
        None \<Rightarrow> Inl TypeError
      | Some nativeSelection \<Rightarrow>
         (case anchorNode nativeSelection of
            None \<Rightarrow> Inr False
          | Some a \<Rightarrow>
             if nodeType a = TEXT_NODE then
               (case parentNode a of
                  None \<Rightarrow> Inl TypeError
                | Some parent \<Rightarrow>
                   if nodeName parent = js ''SPAN'' then
                     (case firstChild parent of
                        None \<Rightarrow> Inl TypeError
                      | Some f \<Rightarrow>
                         if nodeType f = TEXT_NODE then
                           (case nodeValue f of
                              None \<Rightarrow> Inl TypeError
                            | Some v \<Rightarrow> Inr (indexOf v 9 \<noteq> -1))
                         else Inr False)
                   else Inr False)
             else Inr False))"

text \<open>Lines 206 to 208: \<^verbatim>\<open>nullthrows\<close> throws on a direction map that is \<^verbatim>\<open>null\<close>.\<close>

definition directionChanged ::
  "('es, 'cs, 'sel, 'sty, 'bt, 'd, 'h) deps \<Rightarrow> 'es \<Rightarrow> 'es \<Rightarrow> jsstring \<Rightarrow> error + bool" where
  "directionChanged D newEditorState editorState anchorKey =
     (case getDirectionMap D newEditorState of
        None \<Rightarrow> Inl NullThrows
      | Some m' \<Rightarrow>
         (case getDirectionMap D editorState of
            None \<Rightarrow> Inl NullThrows
          | Some m \<Rightarrow> Inr (m' anchorKey \<noteq> m anchorKey)))"

text \<open>
  The variable \<^verbatim>\<open>mustPreventNative\<close> with what the model records beside it.
  \<open>gate h c\<close> is one block \<^verbatim>\<open>if (!mustPreventNative) { mustPreventNative = c; }\<close>:
  the check \<open>c\<close> of the heuristic \<open>h\<close> is evaluated only when no earlier one has set the
  variable or thrown.
\<close>

record decision =
  mustPreventNative :: bool
  evaluated :: "(heuristic \<times> (error + bool)) list"
  raised :: "error option"

definition gate :: "heuristic \<Rightarrow> error + bool \<Rightarrow> decision \<Rightarrow> decision" where
  "gate h c d =
     (if raised d \<noteq> None \<or> mustPreventNative d then d
      else (case c of
              Inl err \<Rightarrow> d\<lparr>evaluated := evaluated d @ [(h, c)], raised := Some err\<rparr>
            | Inr b \<Rightarrow> d\<lparr>mustPreventNative := b, evaluated := evaluated d @ [(h, c)]\<rparr>))"

text \<open>Lines 164 to 209.\<close>

definition decideNative ::
  "('es, 'cs, 'sel, 'sty, 'bt, 'd, 'h) deps \<Rightarrow> native_selection option \<Rightarrow> 'es \<Rightarrow> 'es \<Rightarrow> 'es
     \<Rightarrow> jsstring \<Rightarrow> jsstring \<Rightarrow> decision" where
  "decideNative D win committed editorState newEditorState anchorKey chars =
     (let d0 = \<lparr>mustPreventNative = False, evaluated = [], raised = None\<rparr>;
          d1 = gate LeafStart (Inr (isSelectionAtLeafStart D committed)) d0;
          d2 = gate TabInSpan (tabInSpan win) d1;
          d3 = gate FingerprintChanged
                 (Inr (getFingerprint D (getBlockTree D editorState anchorKey)
                       \<noteq> getFingerprint D (getBlockTree D newEditorState anchorKey))) d2;
          d4 = gate FirefoxQuickfind (Inr (mustPreventDefaultForCharacter D chars)) d3;
          d5 = gate DirectionChanged
                 (directionChanged D newEditorState editorState anchorKey) d4
      in d5)"

text \<open>The handler, lines 77 to 232.\<close>

definition editOnBeforeInput ::
  "('es, 'cs, 'sel, 'sty, 'bt, 'd, 'h) deps \<Rightarrow> ('es, 'h) component \<Rightarrow> native_selection option
     \<Rightarrow> 'es editor \<Rightarrow> event \<Rightarrow> 'es run" where
  "editOnBeforeInput D C win editor e =
     (let r1 = flushPending C \<lparr>ed = editor, log = [], performed = [], thrown = None\<rparr>;
          editorState = latestEditorState (ed r1)
      in case data e of
           None \<Rightarrow> r1
         | Some chars \<Rightarrow>
            if chars = [] then r1
            else
              let (handled, r2) = callHandleBeforeInput D C chars editorState r1 in
              if handled then call_preventDefault r2
              else
                let selection = getSelection D editorState;
                    selectionStart = getStartOffset D selection;
                    selectionEnd = getEndOffset D selection;
                    anchorKey = getAnchorKey D selection
                in
                if \<not> isCollapsed D selection then
                  let r3 = call_preventDefault
                             (r2\<lparr>performed := [(SelectionCollapsed, Inr True)]\<rparr>);
                      currentlySelectedChars =
                        slice (getPlainText D (getCurrentContent D editorState))
                          selectionStart selectionEnd
                  in
                  if chars = currentlySelectedChars then
                    call_update C
                      (forceSelection D editorState
                         (merge D selection
                            \<lparr>anchorOffset = selectionEnd, focusOffset = selectionEnd\<rparr>))
                      r3
                  else
                    let s = replaceText D editorState chars
                              (getCurrentInlineStyle D editorState)
                              (getEntityKeyForSelection D
                                 (getCurrentContent D editorState)
                                 (getSelection D editorState))
                    in call_update C s (r3\<lparr>log := log r3 @ [ReplaceText s]\<rparr>)
                else
                  let newEditorState = replaceText D editorState chars
                                         (getCurrentInlineStyle D editorState)
                                         (getEntityKeyForSelection D
                                            (getCurrentContent D editorState)
                                            (getSelection D editorState));
                      r3 = r2\<lparr>log := log r2 @ [ReplaceText newEditorState]\<rparr>;
                      d = decideNative D win (latestCommittedEditorState (ed r3))
                            editorState newEditorState anchorKey chars;
                      r4 = r3\<lparr>performed := (SelectionCollapsed, Inr False) # evaluated d\<rparr>
                  in
                  (case raised d of
                     Some err \<Rightarrow> r4\<lparr>thrown := Some err\<rparr>
                   | None \<Rightarrow>
                      if mustPreventNative d then
                        call_update C newEditorState (call_preventDefault r4)
                      else
                        let newEditorState' = set_nativelyRenderedContent D newEditorState
                                                (getCurrentContent D newEditorState)
                        in call_setImmediate (set_pending (Some newEditorState') r4)))"

subsection \<open>What the statements below speak of\<close>

text \<open>The run state in which the handler starts, and the one the entry flush leaves.\<close>

definition enter :: "'es editor \<Rightarrow> 'es run" where
  "enter editor = \<lparr>ed = editor, log = [], performed = [], thrown = None\<rparr>"

definition flushed :: "('es, 'h) component \<Rightarrow> 'es editor \<Rightarrow> 'es run" where
  "flushed C editor = flushPending C (enter editor)"

text \<open>The constant \<^verbatim>\<open>editorState\<close> of line 86.\<close>

definition stateAtEntry :: "('es, 'h) component \<Rightarrow> 'es editor \<Rightarrow> 'es" where
  "stateAtEntry C editor = latestEditorState (ed (flushed C editor))"

text \<open>The outcome of lines 101 to 104: whether the prop handled the event, and the run after it.\<close>

definition propHandled ::
  "('es, 'cs, 'sel, 'sty, 'bt, 'd, 'h) deps \<Rightarrow> ('es, 'h) component \<Rightarrow> 'es editor \<Rightarrow> jsstring
     \<Rightarrow> bool" where
  "propHandled D C editor chars =
     fst (callHandleBeforeInput D C chars (stateAtEntry C editor) (flushed C editor))"

definition afterProp ::
  "('es, 'cs, 'sel, 'sty, 'bt, 'd, 'h) deps \<Rightarrow> ('es, 'h) component \<Rightarrow> 'es editor \<Rightarrow> jsstring
     \<Rightarrow> 'es run" where
  "afterProp D C editor chars =
     snd (callHandleBeforeInput D C chars (stateAtEntry C editor) (flushed C editor))"

text \<open>
  The state obtained by replacing the selection of \<open>editorState\<close> with \<open>chars\<close>, with the
  current inline style and the entity key for the selection (lines 139 to 147 and 153 to
  161).
\<close>

definition insertion ::
  "('es, 'cs, 'sel, 'sty, 'bt, 'd, 'h) deps \<Rightarrow> 'es \<Rightarrow> jsstring \<Rightarrow> 'es" where
  "insertion D editorState chars =
     push D editorState
       (DraftModifier_replaceText D (getCurrentContent D editorState)
          (getSelection D editorState) chars (getCurrentInlineStyle D editorState)
          (getEntityKeyForSelection D (getCurrentContent D editorState)
             (getSelection D editorState)))
       (js ''insert-characters'')"

text \<open>
  The decision of lines 164 to 209 in a run that reaches them: the committed state is read
  from the editor as the prop left it.
\<close>

definition decisionOf ::
  "('es, 'cs, 'sel, 'sty, 'bt, 'd, 'h) deps \<Rightarrow> ('es, 'h) component \<Rightarrow> native_selection option
     \<Rightarrow> 'es editor \<Rightarrow> jsstring \<Rightarrow> decision" where
  "decisionOf D C win editor chars =
     decideNative D win (latestCommittedEditorState (ed (afterProp D C editor chars)))
       (stateAtEntry C editor) (insertion D (stateAtEntry C editor) chars)
       (getAnchorKey D (getSelection D (stateAtEntry C editor))) chars"

text \<open>The calls the handler made after the entry flush.\<close>

definition sinceFlush :: "('es, 'h) component \<Rightarrow> 'es editor \<Rightarrow> 'es run \<Rightarrow> 'es effect list" where
  "sinceFlush C editor r = drop (length (log (flushed C editor))) (log r)"

fun intercepts :: "'es effect \<Rightarrow> bool" where
  "intercepts PreventDefault = True"
| "intercepts (Update s) = True"
| "intercepts (ReplaceText s) = False"
| "intercepts SetImmediate = False"

text \<open>Native insertion is allowed: neither \<^verbatim>\<open>preventDefault\<close> nor \<^verbatim>\<open>update\<close> is called.\<close>

definition allowsNative :: "'es effect list \<Rightarrow> bool" where
  "allowsNative t = (filter intercepts t = [])"

text \<open>The heuristics, as properties of the input.\<close>

definition tabInSpanHolds :: "native_selection option \<Rightarrow> bool" where
  "tabInSpanHolds win =
     (case win of None \<Rightarrow> False | Some nativeSelection \<Rightarrow>
      (case anchorNode nativeSelection of None \<Rightarrow> False | Some a \<Rightarrow>
         nodeType a = TEXT_NODE \<and>
         (case parentNode a of None \<Rightarrow> False | Some parent \<Rightarrow>
            nodeName parent = js ''SPAN'' \<and>
            (case firstChild parent of None \<Rightarrow> False | Some f \<Rightarrow>
               nodeType f = TEXT_NODE \<and>
               (case nodeValue f of None \<Rightarrow> False | Some v \<Rightarrow> 9 \<in> set v)))))"

definition fingerprintDiffers ::
  "('es, 'cs, 'sel, 'sty, 'bt, 'd, 'h) deps \<Rightarrow> 'es \<Rightarrow> 'es \<Rightarrow> jsstring \<Rightarrow> bool" where
  "fingerprintDiffers D editorState newEditorState anchorKey =
     (getFingerprint D (getBlockTree D editorState anchorKey)
      \<noteq> getFingerprint D (getBlockTree D newEditorState anchorKey))"

definition firefoxQuickfind ::
  "('es, 'cs, 'sel, 'sty, 'bt, 'd, 'h) deps \<Rightarrow> jsstring \<Rightarrow> bool" where
  "firefoxQuickfind D chars = (isFirefox D \<and> (chars = [39] \<or> chars = [47]))"

definition directionEntry ::
  "('es, 'cs, 'sel, 'sty, 'bt, 'd, 'h) deps \<Rightarrow> 'es \<Rightarrow> jsstring \<Rightarrow> 'd option option" where
  "directionEntry D editorState anchorKey =
     (case getDirectionMap D editorState of None \<Rightarrow> None | Some m \<Rightarrow> Some (m anchorKey))"

definition directionDiffers ::
  "('es, 'cs, 'sel, 'sty, 'bt, 'd, 'h) deps \<Rightarrow> 'es \<Rightarrow> 'es \<Rightarrow> jsstring \<Rightarrow> bool" where
  "directionDiffers D editorState newEditorState anchorKey =
     (directionEntry D newEditorState anchorKey \<noteq> directionEntry D editorState anchorKey)"

text \<open>
  A record of evaluated heuristics follows a sequence when the heuristics are an initial
  part of the sequence, in its order, and every one but the last left the insertion to the
  browser (outcome \<open>Inr False\<close>).
\<close>

definition inSequence :: "heuristic list \<Rightarrow> (heuristic \<times> (error + bool)) list \<Rightarrow> bool" where
  "inSequence order p =
     (prefix (map fst p) order \<and> list_all (\<lambda>x. snd x = Inr False) (butlast p))"

text \<open>
  The same for a decision under way: while no check has forced prevention or thrown, all
  of \<open>hs\<close> have been evaluated, each with the outcome \<open>Inr False\<close>.
\<close>

definition follows :: "heuristic list \<Rightarrow> decision \<Rightarrow> bool" where
  "follows hs d =
     (if raised d = None \<and> \<not> mustPreventNative d
      then map fst (evaluated d) = hs \<and> list_all (\<lambda>x. snd x = Inr False) (evaluated d)
      else prefix (map fst (evaluated d)) hs
           \<and> list_all (\<lambda>x. snd x = Inr False) (butlast (evaluated d)))"

text \<open>
  The checks that a sequence of outcomes lets run: every check up to and including the
  first one whose outcome is not \<open>Inr False\<close>, that is, the first that forces prevention
  or throws; all of them when there is none.
\<close>

fun upToDecisive :: "(heuristic \<times> (error + bool)) list \<Rightarrow> (heuristic \<times> (error + bool)) list" where
  "upToDecisive [] = []"
| "upToDecisive (x # xs) = (if snd x = Inr False then x # upToDecisive xs else [x])"

text \<open>
  A decision under way has evaluated exactly those of the checks \<open>os\<close>, and it is still
  open (nothing thrown, \<^verbatim>\<open>mustPreventNative\<close> false) exactly when all of them came out
  false.
\<close>

definition tracks :: "(heuristic \<times> (error + bool)) list \<Rightarrow> decision \<Rightarrow> bool" where
  "tracks os d =
     (evaluated d = upToDecisive os
      \<and> ((raised d = None \<and> \<not> mustPreventNative d) = list_all (\<lambda>x. snd x = Inr False) os))"

definition listedSequence :: "heuristic list" where
  "listedSequence =
     [SelectionCollapsed, LeafStart, TabInSpan, FingerprintChanged, DirectionChanged,
      FirefoxQuickfind]"

definition sourceSequence :: "heuristic list" where
  "sourceSequence =
     [SelectionCollapsed, LeafStart, TabInSpan, FingerprintChanged, FirefoxQuickfind,
      DirectionChanged]"

subsection \<open>A small editor to run the handler on\<close>

text \<open>
  A one-block document: its text, the two offsets of its selection, and the natively
  rendered content. The block has the key \<open>a\<close>; a leaf starts at every \<open>@\<close>; the block
  is right-to-left when it holds the letter U+05D0.
\<close>

record doc =
  doc_text :: jsstring
  doc_anchor :: nat
  doc_focus :: nat
  doc_native :: "jsstring option"

definition docDeps ::
  "bool \<Rightarrow> (doc, jsstring, nat \<times> nat, unit, nat, bool, bool) deps" where
  "docDeps firefox =
     \<lparr>isFirefox = firefox,
      getCurrentContent = doc_text,
      getSelection = (\<lambda>s. (doc_anchor s, doc_focus s)),
      getCurrentInlineStyle = (\<lambda>s. ()),
      getBlockTree = (\<lambda>s k. length (filter (\<lambda>c. c = 64) (doc_text s))),
      getDirectionMap =
        (\<lambda>s. Some (\<lambda>k. if k = js ''a'' then Some (1488 \<in> set (doc_text s)) else None)),
      push = (\<lambda>s c t. s\<lparr>doc_text := c\<rparr>),
      set_nativelyRenderedContent = (\<lambda>s c. s\<lparr>doc_native := Some c\<rparr>),
      forceSelection = (\<lambda>s x. s\<lparr>doc_anchor := fst x, doc_focus := snd x\<rparr>),
      getPlainText = (\<lambda>c. c),
      getStartOffset = (\<lambda>x. min (fst x) (snd x)),
      getEndOffset = (\<lambda>x. max (fst x) (snd x)),
      getAnchorKey = (\<lambda>x. js ''a''),
      isCollapsed = (\<lambda>x. fst x = snd x),
      merge = (\<lambda>x p. (anchorOffset p, focusOffset p)),
      DraftModifier_replaceText =
        (\<lambda>c x t y k. take (min (fst x) (snd x)) c @ t @ drop (max (fst x) (snd x)) c),
      getFingerprint = (\<lambda>n. replicate n 45),
      getEntityKeyForSelection = (\<lambda>c x. None),
      isSelectionAtLeafStart = (\<lambda>s. doc_anchor s = 0 \<and> doc_focus s = 0),
      isEventHandled = (\<lambda>v. v)\<rparr>"

definition docComponent ::
  "(jsstring \<Rightarrow> doc \<Rightarrow> doc editor \<Rightarrow> bool \<times> doc editor) option \<Rightarrow> (doc, bool) component" where
  "docComponent h =
     \<lparr>editor_update = (\<lambda>s x. x\<lparr>latestEditorState := s\<rparr>), handleBeforeInput = h\<rparr>"

text \<open>A prop that handles every event and leaves the editor alone.\<close>

definition handlesAll :: "jsstring \<Rightarrow> doc \<Rightarrow> doc editor \<Rightarrow> bool \<times> doc editor" where
  "handlesAll c s x = (True, x)"

definition docState :: "jsstring \<Rightarrow> nat \<Rightarrow> nat \<Rightarrow> doc" where
  "docState t a f = \<lparr>doc_text = t, doc_anchor = a, doc_focus = f, doc_native = None\<rparr>"

definition docEditor :: "doc option \<Rightarrow> doc \<Rightarrow> doc editor" where
  "docEditor p s =
     \<lparr>pendingStateFromBeforeInput = p, latestEditorState = s,
      latestCommittedEditorState = s\<rparr>"

text \<open>The caret inside a text node whose parent is a \<open>SPAN\<close> holding the text \<open>t\<close>.\<close>

definition caretIn :: "jsstring \<Rightarrow> native_selection option" where
  "caretIn t =
     (let text = DomNode TEXT_NODE (js ''#text'') (Some t) None None;
          span = DomNode 1 (js ''SPAN'') None None (Some text)
      in Some \<lparr>anchorNode = Some (DomNode TEXT_NODE (js ''#text'') (Some t) (Some span) None)\<rparr>)"

subsection \<open>A document of several blocks\<close>

text \<open>
  The texts of the blocks, the index of the block that holds the selection, and the two
  offsets of the selection inside that block. The plain text of the document is the texts
  of its blocks joined by line feeds; the offsets of a selection count from the start of
  its block.
\<close>

record page =
  page_blocks :: "jsstring list"
  page_block :: nat
  page_anchor :: nat
  page_focus :: nat

fun joinLines :: "jsstring list \<Rightarrow> jsstring" where
  "joinLines [] = []"
| "joinLines [b] = b"
| "joinLines (b # c # bs) = b @ [10] @ joinLines (c # bs)"

definition blockText :: "jsstring list \<Rightarrow> nat \<Rightarrow> jsstring" where
  "blockText bs i = (case drop i bs of [] \<Rightarrow> [] | b # rest \<Rightarrow> b)"

text \<open>The text the selection covers: the slice of its block between its two offsets.\<close>

definition selectedText :: "page \<Rightarrow> jsstring" where
  "selectedText s =
     slice (blockText (page_blocks s) (page_block s))
       (min (page_anchor s) (page_focus s)) (max (page_anchor s) (page_focus s))"

definition pageDeps ::
  "(page, jsstring list, nat \<times> nat \<times> nat, unit, nat, bool, bool) deps" where
  "pageDeps =
     \<lparr>isFirefox = False,
      getCurrentContent = page_blocks,
      getSelection = (\<lambda>s. (page_block s, page_anchor s, page_focus s)),
      getCurrentInlineStyle = (\<lambda>s. ()),
      getBlockTree = (\<lambda>s k. 0),
      getDirectionMap = (\<lambda>s. Some (\<lambda>k. None)),
      push = (\<lambda>s c t. s\<lparr>page_blocks := c\<rparr>),
      set_nativelyRenderedContent = (\<lambda>s c. s),
      forceSelection =
        (\<lambda>s x. s\<lparr>page_block := fst x, page_anchor := fst (snd x), page_focus := snd (snd x)\<rparr>),
      getPlainText = joinLines,
      getStartOffset = (\<lambda>x. min (fst (snd x)) (snd (snd x))),
      getEndOffset = (\<lambda>x. max (fst (snd x)) (snd (snd x))),
      getAnchorKey = (\<lambda>x. [97 + of_nat (fst x)]),
      isCollapsed = (\<lambda>x. fst (snd x) = snd (snd x)),
      merge = (\<lambda>x p. (fst x, anchorOffset p, focusOffset p)),
      DraftModifier_replaceText =
        (\<lambda>c x t y k.
           c[fst x := take (min (fst (snd x)) (snd (snd x))) (blockText c (fst x)) @ t
                        @ drop (max (fst (snd x)) (snd (snd x))) (blockText c (fst x))]),
      getFingerprint = (\<lambda>n. []),
      getEntityKeyForSelection = (\<lambda>c x. None),
      isSelectionAtLeafStart = (\<lambda>s. page_anchor s = 0 \<and> page_focus s = 0),
      isEventHandled = (\<lambda>v. v)\<rparr>"

definition pageComponent :: "(page, bool) component" where
  "pageComponent =
     \<lparr>editor_update = (\<lambda>s x. x\<lparr>latestEditorState := s\<rparr>), handleBeforeInput = None\<rparr>"

definition pageState :: "jsstring list \<Rightarrow> nat \<Rightarrow> nat \<Rightarrow> nat \<Rightarrow> page" where
  "pageState bs i a f = \<lparr>page_blocks = bs, page_block = i, page_anchor = a, page_focus = f\<rparr>"

definition pageEditor :: "page \<Rightarrow> page editor" where
  "pageEditor s =
     \<lparr>pendingStateFromBeforeInput = None, latestEditorState = s,
      latestCommittedEditorState = s\<rparr>"

section \<open>Properties of the handler\<close>

subsection \<open>The checks\<close>

lemma indexOf_lower: "- 1 \<le> indexOf xs c"
  by (induction xs) (auto simp: Let_def)

lemma indexOf_found: "(indexOf xs c \<noteq> - 1) = (c \<in> set xs)"
proof (induction xs)
  case Nil
  show ?case by simp
next
  case (Cons x xs)
  have "indexOf xs c + 1 \<noteq> - 1"
    using indexOf_lower [of xs c] by arith
  with Cons show ?case by (auto simp: Let_def)
qed

lemma tabInSpan_value: "tabInSpan win = Inr b \<Longrightarrow> b = tabInSpanHolds win"
  by (auto simp: tabInSpan_def tabInSpanHolds_def indexOf_found
      split: option.splits if_splits)

lemma directionChanged_value:
  "directionChanged D n s k = Inr b \<Longrightarrow> b = directionDiffers D s n k"
  by (auto simp: directionChanged_def directionDiffers_def directionEntry_def
      split: option.splits)

lemma directionChanged_no_throw:
  assumes "getDirectionMap D n \<noteq> None" and "getDirectionMap D s \<noteq> None"
  shows "directionChanged D n s k = Inr (directionDiffers D s n k)"
  using assms
  by (auto simp: directionChanged_def directionDiffers_def directionEntry_def)

lemma mustPreventDefaultForCharacter_eq:
  "mustPreventDefaultForCharacter D chars = firefoxQuickfind D chars"
  by (simp add: mustPreventDefaultForCharacter_def firefoxQuickfind_def
      FF_QUICKFIND_CHAR_def FF_QUICKFIND_LINK_CHAR_def js_def)

lemma replaceText_insertion:
  "replaceText D s chars (getCurrentInlineStyle D s)
     (getEntityKeyForSelection D (getCurrentContent D s) (getSelection D s))
   = insertion D s chars"
  by (simp add: replaceText_def insertion_def)

subsection \<open>The sequence of checks\<close>

lemma gate_raised: "raised (gate h c d) = None \<Longrightarrow> raised d = None"
  by (simp add: gate_def split: if_splits sum.splits)

lemma gate_value:
  assumes "raised (gate h c d) = None" and "\<And>b. c = Inr b \<Longrightarrow> b = P"
  shows "mustPreventNative (gate h c d) = (mustPreventNative d \<or> P)"
proof (cases "mustPreventNative d")
  case True
  then show ?thesis by (simp add: gate_def)
next
  case False
  have d: "raised d = None" using assms(1) by (rule gate_raised)
  show ?thesis
  proof (cases c)
    case (Inl err)
    with False d assms(1) show ?thesis by (simp add: gate_def)
  next
    case (Inr b)
    with assms(2) have "b = P" by simp
    with False d Inr show ?thesis by (simp add: gate_def)
  qed
qed

lemma gate_no_throw:
  "raised d = None \<Longrightarrow> c = Inr b \<Longrightarrow> raised (gate h c d) = None"
  by (simp add: gate_def)

lemma decideNative_value:
  assumes "raised (decideNative D win committed s n k chars) = None"
  shows "mustPreventNative (decideNative D win committed s n k chars) =
     (isSelectionAtLeafStart D committed \<or> tabInSpanHolds win \<or> fingerprintDiffers D s n k
      \<or> firefoxQuickfind D chars \<or> directionDiffers D s n k)"
proof -
  define d0 where "d0 = \<lparr>mustPreventNative = False, evaluated = [], raised = None\<rparr>"
  define d1 where "d1 = gate LeafStart (Inr (isSelectionAtLeafStart D committed)) d0"
  define d2 where "d2 = gate TabInSpan (tabInSpan win) d1"
  define d3 where "d3 = gate FingerprintChanged (Inr (fingerprintDiffers D s n k)) d2"
  define d4 where "d4 = gate FirefoxQuickfind (Inr (mustPreventDefaultForCharacter D chars)) d3"
  define d5 where "d5 = gate DirectionChanged (directionChanged D n s k) d4"
  have eq: "decideNative D win committed s n k chars = d5"
    by (simp add: decideNative_def Let_def d5_def d4_def d3_def d2_def d1_def d0_def
        fingerprintDiffers_def)
  have r5: "raised d5 = None" using assms eq by simp
  have r4: "raised d4 = None" using r5 unfolding d5_def by (rule gate_raised)
  have r3: "raised d3 = None" using r4 unfolding d4_def by (rule gate_raised)
  have r2: "raised d2 = None" using r3 unfolding d3_def by (rule gate_raised)
  have r1: "raised d1 = None" using r2 unfolding d2_def by (rule gate_raised)
  have v1: "mustPreventNative d1 = isSelectionAtLeafStart D committed"
    using gate_value [of LeafStart "Inr (isSelectionAtLeafStart D committed)" d0
        "isSelectionAtLeafStart D committed"] r1
    by (simp add: d1_def d0_def)
  have v2: "mustPreventNative d2 = (mustPreventNative d1 \<or> tabInSpanHolds win)"
    unfolding d2_def using r2 [unfolded d2_def] by (rule gate_value) (rule tabInSpan_value)
  have v3: "mustPreventNative d3 = (mustPreventNative d2 \<or> fingerprintDiffers D s n k)"
    unfolding d3_def using r3 [unfolded d3_def] by (rule gate_value) simp
  have v4: "mustPreventNative d4 = (mustPreventNative d3 \<or> firefoxQuickfind D chars)"
    unfolding d4_def using r4 [unfolded d4_def]
    by (rule gate_value) (simp add: mustPreventDefaultForCharacter_eq)
  have v5: "mustPreventNative d5 = (mustPreventNative d4 \<or> directionDiffers D s n k)"
    unfolding d5_def using r5 [unfolded d5_def]
    by (rule gate_value) (rule directionChanged_value)
  show ?thesis
    unfolding eq using v1 v2 v3 v4 v5 by blast
qed

lemma decideNative_returns:
  assumes "tabInSpan win = Inr b"
    and "getDirectionMap D n \<noteq> None" and "getDirectionMap D s \<noteq> None"
  shows "raised (decideNative D win committed s n k chars) = None"
  unfolding decideNative_def Let_def
  by (intro gate_no_throw [OF _ directionChanged_no_throw [OF assms(2,3)]]
      gate_no_throw [OF _ refl] gate_no_throw [OF _ assms(1)]) simp

lemma decideNative_fingerprint:
  assumes "\<not> isSelectionAtLeafStart D committed" and "tabInSpan win = Inr False"
    and "fingerprintDiffers D s n k"
  shows "decideNative D win committed s n k chars
     = \<lparr>mustPreventNative = True,
        evaluated = [(LeafStart, Inr False), (TabInSpan, Inr False),
          (FingerprintChanged, Inr True)],
        raised = None\<rparr>"
  using assms by (simp add: decideNative_def gate_def Let_def fingerprintDiffers_def)

text \<open>
  The order of the last two checks can be observed: on Firefox, with \<open>'\<close> or \<open>/\<close>
  typed and no earlier check holding, the handler prevents the insertion without reading
  the direction maps, so a direction map that is \<^verbatim>\<open>null\<close> makes nothing throw.
\<close>

lemma quickfind_before_direction:
  assumes "\<not> isSelectionAtLeafStart D committed" and "tabInSpan win = Inr False"
    and "\<not> fingerprintDiffers D s n k" and "firefoxQuickfind D chars"
  shows "decideNative D win committed s n k chars
     = \<lparr>mustPreventNative = True,
        evaluated = [(LeafStart, Inr False), (TabInSpan, Inr False),
          (FingerprintChanged, Inr False), (FirefoxQuickfind, Inr True)],
        raised = None\<rparr>"
  using assms
  by (simp add: decideNative_def gate_def Let_def fingerprintDiffers_def
      mustPreventDefaultForCharacter_eq)

lemma upToDecisive_all_False:
  "list_all (\<lambda>x. snd x = Inr False) os \<Longrightarrow> upToDecisive os = os"
  by (induction os) simp_all

lemma upToDecisive_snoc:
  "upToDecisive (os @ [x]) =
     (if list_all (\<lambda>x. snd x = Inr False) os then os @ [x] else upToDecisive os)"
  by (induction os) (simp_all add: upToDecisive_all_False)

lemma gate_tracks: "tracks os d \<Longrightarrow> tracks (os @ [(h, c)]) (gate h c d)"
proof (cases "raised d = None \<and> \<not> mustPreventNative d")
  case True
  assume "tracks os d"
  with True have a: "list_all (\<lambda>x. snd x = Inr False) os" and e: "evaluated d = os"
    by (simp_all add: tracks_def upToDecisive_all_False)
  from True a e show ?thesis
    by (cases c) (auto simp: tracks_def gate_def upToDecisive_snoc)
next
  case False
  assume "tracks os d"
  with False have a: "\<not> list_all (\<lambda>x. snd x = Inr False) os"
    and e: "evaluated d = upToDecisive os"
    unfolding tracks_def by blast+
  from False have "gate h c d = d" by (auto simp: gate_def)
  with False a e show ?thesis
    by (simp add: tracks_def upToDecisive_snoc)
qed

lemma decideNative_tracks:
  "tracks
     [(LeafStart, Inr (isSelectionAtLeafStart D committed)),
      (TabInSpan, tabInSpan win),
      (FingerprintChanged, Inr (fingerprintDiffers D s n k)),
      (FirefoxQuickfind, Inr (mustPreventDefaultForCharacter D chars)),
      (DirectionChanged, directionChanged D n s k)]
     (decideNative D win committed s n k chars)"
proof -
  have "tracks [] \<lparr>mustPreventNative = False, evaluated = [], raised = None\<rparr>"
    by (simp add: tracks_def)
  from this [THEN gate_tracks, THEN gate_tracks, THEN gate_tracks, THEN gate_tracks,
      THEN gate_tracks]
  show ?thesis by (simp add: decideNative_def Let_def fingerprintDiffers_def)
qed

lemma gate_follows: "follows hs d \<Longrightarrow> follows (hs @ [h]) (gate h c d)"
  by (cases c) (auto simp: follows_def gate_def butlast_append split: if_splits)

lemma decideNative_follows:
  "follows [LeafStart, TabInSpan, FingerprintChanged, FirefoxQuickfind, DirectionChanged]
     (decideNative D win committed s n k chars)"
proof -
  have "follows [] \<lparr>mustPreventNative = False, evaluated = [], raised = None\<rparr>"
    by (simp add: follows_def)
  from this [THEN gate_follows, THEN gate_follows, THEN gate_follows, THEN gate_follows,
      THEN gate_follows]
  show ?thesis by (simp add: decideNative_def Let_def)
qed

lemma follows_inSequence:
  assumes "follows hs d"
  shows "inSequence (SelectionCollapsed # hs) ((SelectionCollapsed, Inr False) # evaluated d)"
  using assms
  by (auto simp: follows_def inSequence_def list_all_iff dest: in_set_butlastD split: if_splits)

subsection \<open>The entry flush and the prop\<close>

lemma flushed_fields [simp]:
  "performed (flushed C editor) = []" "thrown (flushed C editor) = None"
  by (simp_all add: flushed_def flushPending_def enter_def set_pending_def call_update_def
      split: option.splits)

lemma flushed_nothing_pending:
  "pendingStateFromBeforeInput editor = None \<Longrightarrow> flushed C editor = enter editor"
  by (simp add: flushed_def flushPending_def enter_def)

lemma stateAtEntry_nothing_pending:
  "pendingStateFromBeforeInput editor = None \<Longrightarrow> stateAtEntry C editor = latestEditorState editor"
  by (simp add: stateAtEntry_def flushed_nothing_pending enter_def)

lemma flushPending_applies:
  assumes "pendingStateFromBeforeInput (ed x) = Some s"
  shows "log (flushPending C x) = log x @ [Update s]"
    and "pendingStateFromBeforeInput (ed (flushPending C x)) = None"
  using assms by (simp_all add: flushPending_def set_pending_def call_update_def)

lemma flushPending_clears: "pendingStateFromBeforeInput (ed (flushPending C x)) = None"
  by (simp add: flushPending_def set_pending_def call_update_def split: option.splits)

lemma flushPending_idle:
  "pendingStateFromBeforeInput (ed x) = None \<Longrightarrow> flushPending C x = x"
  by (simp add: flushPending_def)

lemma afterProp_fields [simp]:
  "log (afterProp D C editor chars) = log (flushed C editor)"
  "performed (afterProp D C editor chars) = []"
  "thrown (afterProp D C editor chars) = None"
  by (simp_all add: afterProp_def callHandleBeforeInput_def split: option.splits prod.splits)

lemma prop_absent:
  assumes "handleBeforeInput C = None"
  shows "\<not> propHandled D C editor chars" and "afterProp D C editor chars = flushed C editor"
  using assms by (simp_all add: propHandled_def afterProp_def callHandleBeforeInput_def)

subsection \<open>The paths of the handler\<close>

lemma eobi_no_data:
  assumes "data e = None \<or> data e = Some []"
  shows "editOnBeforeInput D C win editor e = flushed C editor"
  using assms by (auto simp: editOnBeforeInput_def flushed_def enter_def Let_def)

lemma eobi_handled:
  assumes "data e = Some chars" "chars \<noteq> []" "propHandled D C editor chars"
  shows "editOnBeforeInput D C win editor e = call_preventDefault (afterProp D C editor chars)"
  using assms
  by (simp add: editOnBeforeInput_def Let_def propHandled_def afterProp_def stateAtEntry_def
      flushed_def enter_def case_prod_unfold)

lemma eobi_selected_same:
  assumes "data e = Some chars" "chars \<noteq> []" "\<not> propHandled D C editor chars"
    and "\<not> isCollapsed D (getSelection D (stateAtEntry C editor))"
    and "chars = slice (getPlainText D (getCurrentContent D (stateAtEntry C editor)))
           (getStartOffset D (getSelection D (stateAtEntry C editor)))
           (getEndOffset D (getSelection D (stateAtEntry C editor)))"
  shows "editOnBeforeInput D C win editor e =
     call_update C
       (forceSelection D (stateAtEntry C editor)
          (merge D (getSelection D (stateAtEntry C editor))
             \<lparr>anchorOffset = getEndOffset D (getSelection D (stateAtEntry C editor)),
              focusOffset = getEndOffset D (getSelection D (stateAtEntry C editor))\<rparr>))
       (call_preventDefault
          ((afterProp D C editor chars)\<lparr>performed := [(SelectionCollapsed, Inr True)]\<rparr>))"
  using assms(1-4) assms(5) [symmetric]
  by (simp add: editOnBeforeInput_def Let_def propHandled_def afterProp_def stateAtEntry_def
      flushed_def enter_def case_prod_unfold)

lemma eobi_selected_other:
  assumes "data e = Some chars" "chars \<noteq> []" "\<not> propHandled D C editor chars"
    and "\<not> isCollapsed D (getSelection D (stateAtEntry C editor))"
    and "chars \<noteq> slice (getPlainText D (getCurrentContent D (stateAtEntry C editor)))
           (getStartOffset D (getSelection D (stateAtEntry C editor)))
           (getEndOffset D (getSelection D (stateAtEntry C editor)))"
  shows "editOnBeforeInput D C win editor e =
     (let r3 = call_preventDefault
                 ((afterProp D C editor chars)\<lparr>performed := [(SelectionCollapsed, Inr True)]\<rparr>);
          s = insertion D (stateAtEntry C editor) chars
      in call_update C s (r3\<lparr>log := log r3 @ [ReplaceText s]\<rparr>))"
  using assms
  by (simp add: editOnBeforeInput_def Let_def propHandled_def afterProp_def stateAtEntry_def
      flushed_def enter_def replaceText_insertion case_prod_unfold)

lemma eobi_collapsed:
  assumes "data e = Some chars" "chars \<noteq> []" "\<not> propHandled D C editor chars"
    and "isCollapsed D (getSelection D (stateAtEntry C editor))"
  shows "editOnBeforeInput D C win editor e =
     (let n = insertion D (stateAtEntry C editor) chars;
          r3 = (afterProp D C editor chars)
                 \<lparr>log := log (afterProp D C editor chars) @ [ReplaceText n]\<rparr>;
          d = decideNative D win (latestCommittedEditorState (ed r3)) (stateAtEntry C editor) n
                (getAnchorKey D (getSelection D (stateAtEntry C editor))) chars;
          r4 = r3\<lparr>performed := (SelectionCollapsed, Inr False) # evaluated d\<rparr>
      in (case raised d of
            Some err \<Rightarrow> r4\<lparr>thrown := Some err\<rparr>
          | None \<Rightarrow>
             if mustPreventNative d then call_update C n (call_preventDefault r4)
             else call_setImmediate
                    (set_pending
                       (Some (set_nativelyRenderedContent D n (getCurrentContent D n))) r4)))"
  using assms
  by (simp add: editOnBeforeInput_def Let_def propHandled_def afterProp_def stateAtEntry_def
      flushed_def enter_def replaceText_insertion case_prod_unfold split: option.splits)

lemma eobi_collapsed_decision:
  assumes "data e = Some chars" "chars \<noteq> []" "\<not> propHandled D C editor chars"
    and "isCollapsed D (getSelection D (stateAtEntry C editor))"
  shows "editOnBeforeInput D C win editor e =
     (let n = insertion D (stateAtEntry C editor) chars;
          d = decisionOf D C win editor chars;
          r4 = (afterProp D C editor chars)
                 \<lparr>log := log (flushed C editor) @ [ReplaceText n],
                  performed := (SelectionCollapsed, Inr False) # evaluated d\<rparr>
      in (case raised d of
            Some err \<Rightarrow> r4\<lparr>thrown := Some err\<rparr>
          | None \<Rightarrow>
             if mustPreventNative d then call_update C n (call_preventDefault r4)
             else call_setImmediate
                    (set_pending
                       (Some (set_nativelyRenderedContent D n (getCurrentContent D n))) r4)))"
  using assms by (simp add: eobi_collapsed decisionOf_def Let_def cong: option.case_cong)

lemma eobi_cases:
  assumes "data e = None \<or> data e = Some [] \<Longrightarrow> P"
    and "\<And>chars. data e = Some chars \<Longrightarrow> chars \<noteq> [] \<Longrightarrow> propHandled D C editor chars \<Longrightarrow> P"
    and "\<And>chars. data e = Some chars \<Longrightarrow> chars \<noteq> [] \<Longrightarrow> \<not> propHandled D C editor chars
           \<Longrightarrow> \<not> isCollapsed D (getSelection D (stateAtEntry C editor)) \<Longrightarrow> P"
    and "\<And>chars. data e = Some chars \<Longrightarrow> chars \<noteq> [] \<Longrightarrow> \<not> propHandled D C editor chars
           \<Longrightarrow> isCollapsed D (getSelection D (stateAtEntry C editor)) \<Longrightarrow> P"
  shows P
proof (cases "data e")
  case None
  then show ?thesis using assms(1) by simp
next
  case (Some chars)
  show ?thesis
  proof (cases "chars = []")
    case True
    with Some show ?thesis using assms(1) by simp
  next
    case False
    with Some assms(2-4) [of chars] show ?thesis by blast
  qed
qed

lemma handled:
  assumes "data e = Some chars" "chars \<noteq> []" "propHandled D C editor chars"
  shows "sinceFlush C editor (editOnBeforeInput D C win editor e) = [PreventDefault]"
    and "ed (editOnBeforeInput D C win editor e) = ed (afterProp D C editor chars)"
    and "thrown (editOnBeforeInput D C win editor e) = None"
    and "performed (editOnBeforeInput D C win editor e) = []"
  using eobi_handled [OF assms, of win]
  by (simp_all add: call_preventDefault_def sinceFlush_def)

lemma selected_same:
  assumes "data e = Some chars" "chars \<noteq> []" "\<not> propHandled D C editor chars"
    and "\<not> isCollapsed D (getSelection D (stateAtEntry C editor))"
    and "chars = slice (getPlainText D (getCurrentContent D (stateAtEntry C editor)))
           (getStartOffset D (getSelection D (stateAtEntry C editor)))
           (getEndOffset D (getSelection D (stateAtEntry C editor)))"
  shows "sinceFlush C editor (editOnBeforeInput D C win editor e) =
           [PreventDefault,
            Update (forceSelection D (stateAtEntry C editor)
              (merge D (getSelection D (stateAtEntry C editor))
                 \<lparr>anchorOffset = getEndOffset D (getSelection D (stateAtEntry C editor)),
                  focusOffset = getEndOffset D (getSelection D (stateAtEntry C editor))\<rparr>))]"
    and "ed (editOnBeforeInput D C win editor e) =
           editor_update C (forceSelection D (stateAtEntry C editor)
              (merge D (getSelection D (stateAtEntry C editor))
                 \<lparr>anchorOffset = getEndOffset D (getSelection D (stateAtEntry C editor)),
                  focusOffset = getEndOffset D (getSelection D (stateAtEntry C editor))\<rparr>))
             (ed (afterProp D C editor chars))"
    and "thrown (editOnBeforeInput D C win editor e) = None"
    and "performed (editOnBeforeInput D C win editor e) = [(SelectionCollapsed, Inr True)]"
  using eobi_selected_same [OF assms, of win]
  by (simp_all add: call_update_def call_preventDefault_def sinceFlush_def)

lemma selected_other:
  assumes "data e = Some chars" "chars \<noteq> []" "\<not> propHandled D C editor chars"
    and "\<not> isCollapsed D (getSelection D (stateAtEntry C editor))"
    and "chars \<noteq> slice (getPlainText D (getCurrentContent D (stateAtEntry C editor)))
           (getStartOffset D (getSelection D (stateAtEntry C editor)))
           (getEndOffset D (getSelection D (stateAtEntry C editor)))"
  shows "sinceFlush C editor (editOnBeforeInput D C win editor e) =
           [PreventDefault, ReplaceText (insertion D (stateAtEntry C editor) chars),
            Update (insertion D (stateAtEntry C editor) chars)]"
    and "ed (editOnBeforeInput D C win editor e) =
           editor_update C (insertion D (stateAtEntry C editor) chars)
             (ed (afterProp D C editor chars))"
    and "thrown (editOnBeforeInput D C win editor e) = None"
    and "performed (editOnBeforeInput D C win editor e) = [(SelectionCollapsed, Inr True)]"
  using eobi_selected_other [OF assms, of win]
  by (simp_all add: Let_def call_update_def call_preventDefault_def sinceFlush_def)

lemma collapsed_thrown:
  assumes "data e = Some chars" "chars \<noteq> []" "\<not> propHandled D C editor chars"
    and "isCollapsed D (getSelection D (stateAtEntry C editor))"
  shows "thrown (editOnBeforeInput D C win editor e) = raised (decisionOf D C win editor chars)"
  using assms
  by (simp add: eobi_collapsed_decision Let_def call_update_def call_preventDefault_def
      call_setImmediate_def set_pending_def split: option.splits)

lemma collapsed_performed:
  assumes "data e = Some chars" "chars \<noteq> []" "\<not> propHandled D C editor chars"
    and "isCollapsed D (getSelection D (stateAtEntry C editor))"
  shows "performed (editOnBeforeInput D C win editor e) =
     (SelectionCollapsed, Inr False) # evaluated (decisionOf D C win editor chars)"
  using assms
  by (simp add: eobi_collapsed_decision Let_def call_update_def call_preventDefault_def
      call_setImmediate_def set_pending_def split: option.splits)

lemma collapsed_raised:
  assumes "data e = Some chars" "chars \<noteq> []" "\<not> propHandled D C editor chars"
    and "isCollapsed D (getSelection D (stateAtEntry C editor))"
    and "raised (decisionOf D C win editor chars) = Some err"
  shows "sinceFlush C editor (editOnBeforeInput D C win editor e) =
           [ReplaceText (insertion D (stateAtEntry C editor) chars)]"
    and "ed (editOnBeforeInput D C win editor e) = ed (afterProp D C editor chars)"
  using assms by (simp_all add: eobi_collapsed_decision Let_def sinceFlush_def)

lemma collapsed_prevented:
  assumes "data e = Some chars" "chars \<noteq> []" "\<not> propHandled D C editor chars"
    and "isCollapsed D (getSelection D (stateAtEntry C editor))"
    and "raised (decisionOf D C win editor chars) = None"
    and "mustPreventNative (decisionOf D C win editor chars)"
  shows "sinceFlush C editor (editOnBeforeInput D C win editor e) =
           [ReplaceText (insertion D (stateAtEntry C editor) chars), PreventDefault,
            Update (insertion D (stateAtEntry C editor) chars)]"
    and "ed (editOnBeforeInput D C win editor e) =
           editor_update C (insertion D (stateAtEntry C editor) chars)
             (ed (afterProp D C editor chars))"
  using assms
  by (simp_all add: eobi_collapsed_decision Let_def call_update_def call_preventDefault_def
      sinceFlush_def)

lemma collapsed_native:
  assumes "data e = Some chars" "chars \<noteq> []" "\<not> propHandled D C editor chars"
    and "isCollapsed D (getSelection D (stateAtEntry C editor))"
    and "raised (decisionOf D C win editor chars) = None"
    and "\<not> mustPreventNative (decisionOf D C win editor chars)"
  shows "sinceFlush C editor (editOnBeforeInput D C win editor e) =
           [ReplaceText (insertion D (stateAtEntry C editor) chars), SetImmediate]"
    and "ed (editOnBeforeInput D C win editor e) =
           (ed (afterProp D C editor chars))
             \<lparr>pendingStateFromBeforeInput :=
                Some (set_nativelyRenderedContent D (insertion D (stateAtEntry C editor) chars)
                        (getCurrentContent D (insertion D (stateAtEntry C editor) chars)))\<rparr>"
  using assms
  by (simp_all add: eobi_collapsed_decision Let_def call_setImmediate_def set_pending_def
      sinceFlush_def)

lemma decisionOf_value:
  assumes "raised (decisionOf D C win editor chars) = None"
  shows "mustPreventNative (decisionOf D C win editor chars) =
     (isSelectionAtLeafStart D (latestCommittedEditorState (ed (afterProp D C editor chars)))
      \<or> tabInSpanHolds win
      \<or> fingerprintDiffers D (stateAtEntry C editor) (insertion D (stateAtEntry C editor) chars)
           (getAnchorKey D (getSelection D (stateAtEntry C editor)))
      \<or> firefoxQuickfind D chars
      \<or> directionDiffers D (stateAtEntry C editor) (insertion D (stateAtEntry C editor) chars)
           (getAnchorKey D (getSelection D (stateAtEntry C editor))))"
  using assms unfolding decisionOf_def by (rule decideNative_value)

lemma collapsed_allowsNative:
  assumes "data e = Some chars" "chars \<noteq> []" "\<not> propHandled D C editor chars"
    and "isCollapsed D (getSelection D (stateAtEntry C editor))"
    and "thrown (editOnBeforeInput D C win editor e) = None"
  shows "allowsNative (sinceFlush C editor (editOnBeforeInput D C win editor e))
           = (\<not> mustPreventNative (decisionOf D C win editor chars))"
    and "raised (decisionOf D C win editor chars) = None"
proof -
  show r: "raised (decisionOf D C win editor chars) = None"
    using collapsed_thrown [OF assms(1-4), of win] assms(5) by simp
  show "allowsNative (sinceFlush C editor (editOnBeforeInput D C win editor e))
           = (\<not> mustPreventNative (decisionOf D C win editor chars))"
  proof (cases "mustPreventNative (decisionOf D C win editor chars)")
    case True
    from collapsed_prevented(1) [OF assms(1-4) r True] True show ?thesis
      by (simp add: allowsNative_def)
  next
    case False
    from collapsed_native(1) [OF assms(1-4) r False] False show ?thesis
      by (simp add: allowsNative_def)
  qed
qed

lemma log_after_flush:
  "log (editOnBeforeInput D C win editor e)
     = log (flushed C editor) @ sinceFlush C editor (editOnBeforeInput D C win editor e)"
proof (rule eobi_cases [of e _ D C editor])
  assume "data e = None \<or> data e = Some []"
  then show ?thesis by (simp add: eobi_no_data sinceFlush_def)
next
  fix c assume c: "data e = Some c" "c \<noteq> []" "propHandled D C editor c"
  show ?thesis
    unfolding eobi_handled [OF c] by (simp add: sinceFlush_def call_preventDefault_def)
next
  fix c assume c: "data e = Some c" "c \<noteq> []" "\<not> propHandled D C editor c"
    "\<not> isCollapsed D (getSelection D (stateAtEntry C editor))"
  show ?thesis
  proof (cases "c = slice (getPlainText D (getCurrentContent D (stateAtEntry C editor)))
           (getStartOffset D (getSelection D (stateAtEntry C editor)))
           (getEndOffset D (getSelection D (stateAtEntry C editor)))")
    case True
    show ?thesis
      unfolding eobi_selected_same [OF c True]
      by (simp add: sinceFlush_def call_preventDefault_def call_update_def)
  next
    case False
    show ?thesis
      unfolding eobi_selected_other [OF c False]
      by (simp add: sinceFlush_def call_preventDefault_def call_update_def Let_def)
  qed
next
  fix c assume c: "data e = Some c" "c \<noteq> []" "\<not> propHandled D C editor c"
    "isCollapsed D (getSelection D (stateAtEntry C editor))"
  show ?thesis
    unfolding eobi_collapsed_decision [OF c]
    by (simp add: sinceFlush_def call_preventDefault_def call_update_def call_setImmediate_def
        set_pending_def Let_def split: option.splits)
qed

lemma editOnBeforeInput_returns:
  assumes "tabInSpan win = Inr b"
    and "\<And>s. getDirectionMap D s \<noteq> None"
  shows "thrown (editOnBeforeInput D C win editor e) = None"
proof (rule eobi_cases [of e _ D C editor])
  assume "data e = None \<or> data e = Some []"
  then show ?thesis by (simp add: eobi_no_data)
next
  fix c assume c: "data e = Some c" "c \<noteq> []" "propHandled D C editor c"
  from handled(3) [OF c] show ?thesis .
next
  fix c assume c: "data e = Some c" "c \<noteq> []" "\<not> propHandled D C editor c"
    "\<not> isCollapsed D (getSelection D (stateAtEntry C editor))"
  show ?thesis
  proof (cases "c = slice (getPlainText D (getCurrentContent D (stateAtEntry C editor)))
           (getStartOffset D (getSelection D (stateAtEntry C editor)))
           (getEndOffset D (getSelection D (stateAtEntry C editor)))")
    case True
    from selected_same(3) [OF c True] show ?thesis .
  next
    case False
    from selected_other(3) [OF c False] show ?thesis .
  qed
next
  fix c assume c: "data e = Some c" "c \<noteq> []" "\<not> propHandled D C editor c"
    "isCollapsed D (getSelection D (stateAtEntry C editor))"
  show ?thesis
    unfolding collapsed_thrown [OF c] decisionOf_def
    using assms(1) assms(2) assms(2) by (rule decideNative_returns)
qed

subsection \<open>Running the handler on the small editor\<close>

lemma docDeps_sel [simp]:
  "isFirefox (docDeps ff) = ff"
  "getCurrentContent (docDeps ff) = doc_text"
  "getSelection (docDeps ff) s = (doc_anchor s, doc_focus s)"
  "getCurrentInlineStyle (docDeps ff) s = ()"
  "getBlockTree (docDeps ff) s k = length (filter (\<lambda>c. c = 64) (doc_text s))"
  "getDirectionMap (docDeps ff) s =
     Some (\<lambda>k. if k = js ''a'' then Some (1488 \<in> set (doc_text s)) else None)"
  "push (docDeps ff) s c t = s\<lparr>doc_text := c\<rparr>"
  "set_nativelyRenderedContent (docDeps ff) s c = s\<lparr>doc_native := Some c\<rparr>"
  "forceSelection (docDeps ff) s x = s\<lparr>doc_anchor := fst x, doc_focus := snd x\<rparr>"
  "getPlainText (docDeps ff) c = c"
  "getStartOffset (docDeps ff) x = min (fst x) (snd x)"
  "getEndOffset (docDeps ff) x = max (fst x) (snd x)"
  "getAnchorKey (docDeps ff) x = js ''a''"
  "isCollapsed (docDeps ff) x = (fst x = snd x)"
  "merge (docDeps ff) x p = (anchorOffset p, focusOffset p)"
  "DraftModifier_replaceText (docDeps ff) c x u y z =
     take (min (fst x) (snd x)) c @ u @ drop (max (fst x) (snd x)) c"
  "getFingerprint (docDeps ff) n = replicate n 45"
  "getEntityKeyForSelection (docDeps ff) c x = None"
  "isSelectionAtLeafStart (docDeps ff) s = (doc_anchor s = 0 \<and> doc_focus s = 0)"
  "isEventHandled (docDeps ff) v = v"
  by (simp_all add: docDeps_def)

lemma docComponent_sel [simp]:
  "editor_update (docComponent h) s x = x\<lparr>latestEditorState := s\<rparr>"
  "handleBeforeInput (docComponent h) = h"
  by (simp_all add: docComponent_def)

lemma docEditor_sel [simp]:
  "pendingStateFromBeforeInput (docEditor p s) = p"
  "latestEditorState (docEditor p s) = s"
  "latestCommittedEditorState (docEditor p s) = s"
  by (simp_all add: docEditor_def)

lemma docState_sel [simp]:
  "doc_text (docState t a f) = t"
  "doc_anchor (docState t a f) = a"
  "doc_focus (docState t a f) = f"
  "doc_native (docState t a f) = None"
  by (simp_all add: docState_def)

lemma js_codes:
  "js ''a'' = [97]" "js ''ab'' = [97, 98]" "js ''abcd'' = [97, 98, 99, 100]"
  "js ''bc'' = [98, 99]" "js ''c'' = [99]" "js ''x'' = [120]" "js ''@'' = [64]"
  "js ''/'' = [47]" "js [CHR 0x27] = [39]" "js ''a@b'' = [97, 64, 98]"
  "js ''axd'' = [97, 120, 100]" "js ''acb'' = [97, 99, 98]"
  by (simp_all add: js_def)

lemma tabInSpan_caretIn: "tabInSpan (caretIn t) = Inr (indexOf t 9 \<noteq> - 1)"
  by (simp add: tabInSpan_def caretIn_def TEXT_NODE_def Let_def)

lemma decision_native:
  "decisionOf (docDeps False) (docComponent None) (caretIn (js ''ab''))
     (docEditor None (docState (js ''ab'') 1 1)) (js ''c'')
   = \<lparr>mustPreventNative = False,
      evaluated = [(LeafStart, Inr False), (TabInSpan, Inr False), (FingerprintChanged, Inr False),
        (FirefoxQuickfind, Inr False), (DirectionChanged, Inr False)],
      raised = None\<rparr>"
  by (simp add: decisionOf_def prop_absent flushed_nothing_pending stateAtEntry_nothing_pending
      enter_def insertion_def decideNative_def gate_def tabInSpan_caretIn js_codes Let_def
      mustPreventDefaultForCharacter_def directionChanged_def)

lemma decision_fingerprint:
  "decisionOf (docDeps False) (docComponent None) (caretIn (js ''ab''))
     (docEditor None (docState (js ''ab'') 1 1)) (js ''@'')
   = \<lparr>mustPreventNative = True,
      evaluated = [(LeafStart, Inr False), (TabInSpan, Inr False), (FingerprintChanged, Inr True)],
      raised = None\<rparr>"
  by (simp add: decisionOf_def prop_absent flushed_nothing_pending stateAtEntry_nothing_pending
      enter_def insertion_def decideNative_def gate_def tabInSpan_caretIn js_codes Let_def)

lemma decision_quote:
  "decisionOf (docDeps True) (docComponent None) (caretIn (js ''ab''))
     (docEditor None (docState (js ''ab'') 1 1)) (js [CHR 0x27])
   = \<lparr>mustPreventNative = True,
      evaluated = [(LeafStart, Inr False), (TabInSpan, Inr False), (FingerprintChanged, Inr False),
        (FirefoxQuickfind, Inr True)],
      raised = None\<rparr>"
  by (simp add: decisionOf_def prop_absent flushed_nothing_pending stateAtEntry_nothing_pending
      enter_def insertion_def decideNative_def gate_def tabInSpan_caretIn js_codes Let_def
      mustPreventDefaultForCharacter_def FF_QUICKFIND_CHAR_def FF_QUICKFIND_LINK_CHAR_def)

lemma native_path:
  "data \<lparr>data = Some (js ''c'')\<rparr> = Some (js ''c'')"
  "js ''c'' \<noteq> []"
  "\<not> propHandled (docDeps False) (docComponent None)
      (docEditor None (docState (js ''ab'') 1 1)) (js ''c'')"
  "isCollapsed (docDeps False)
     (getSelection (docDeps False)
        (stateAtEntry (docComponent None) (docEditor None (docState (js ''ab'') 1 1))))"
  by (simp_all add: js_codes prop_absent stateAtEntry_nothing_pending)

lemma quote_path:
  "data \<lparr>data = Some (js [CHR 0x27])\<rparr> = Some (js [CHR 0x27])"
  "js [CHR 0x27] \<noteq> []"
  "\<not> propHandled (docDeps True) (docComponent None)
      (docEditor None (docState (js ''ab'') 1 1)) (js [CHR 0x27])"
  "isCollapsed (docDeps True)
     (getSelection (docDeps True)
        (stateAtEntry (docComponent None) (docEditor None (docState (js ''ab'') 1 1))))"
  by (simp_all add: js_codes prop_absent stateAtEntry_nothing_pending)

lemma pageDeps_sel [simp]:
  "isFirefox pageDeps = False"
  "getCurrentContent pageDeps = page_blocks"
  "getSelection pageDeps s = (page_block s, page_anchor s, page_focus s)"
  "getCurrentInlineStyle pageDeps s = ()"
  "getDirectionMap pageDeps s = Some (\<lambda>k. None)"
  "push pageDeps s bs t = s\<lparr>page_blocks := bs\<rparr>"
  "forceSelection pageDeps s x
     = s\<lparr>page_block := fst x, page_anchor := fst (snd x), page_focus := snd (snd x)\<rparr>"
  "getPlainText pageDeps = joinLines"
  "getStartOffset pageDeps x = min (fst (snd x)) (snd (snd x))"
  "getEndOffset pageDeps x = max (fst (snd x)) (snd (snd x))"
  "isCollapsed pageDeps x = (fst (snd x) = snd (snd x))"
  "merge pageDeps x p = (fst x, anchorOffset p, focusOffset p)"
  "DraftModifier_replaceText pageDeps bs x u y z
     = bs[fst x := take (min (fst (snd x)) (snd (snd x))) (blockText bs (fst x)) @ u
                     @ drop (max (fst (snd x)) (snd (snd x))) (blockText bs (fst x))]"
  "getEntityKeyForSelection pageDeps bs x = None"
  "isEventHandled pageDeps v = v"
  by (simp_all add: pageDeps_def)

lemma pageComponent_sel [simp]:
  "editor_update pageComponent s x = x\<lparr>latestEditorState := s\<rparr>"
  "handleBeforeInput pageComponent = None"
  by (simp_all add: pageComponent_def)

lemma pageEditor_sel [simp]:
  "pendingStateFromBeforeInput (pageEditor s) = None"
  "latestEditorState (pageEditor s) = s"
  "latestCommittedEditorState (pageEditor s) = s"
  by (simp_all add: pageEditor_def)

lemma pageState_sel [simp]:
  "page_blocks (pageState bs i a f) = bs"
  "page_block (pageState bs i a f) = i"
  "page_anchor (pageState bs i a f) = a"
  "page_focus (pageState bs i a f) = f"
  by (simp_all add: pageState_def)

lemma js_codes_page:
  "js ''wxyz'' = [119, 120, 121, 122]" "js ''xy'' = [120, 121]"
  "js ''wbcz'' = [119, 98, 99, 122]"
  by (simp_all add: js_def)

lemma page_path:
  "data \<lparr>data = Some (js ''bc'')\<rparr> = Some (js ''bc'')"
  "js ''bc'' \<noteq> []"
  "\<not> propHandled pageDeps pageComponent
      (pageEditor (pageState [js ''abcd'', js ''wxyz''] 1 1 3)) (js ''bc'')"
  "\<not> isCollapsed pageDeps
      (getSelection pageDeps
         (stateAtEntry pageComponent
            (pageEditor (pageState [js ''abcd'', js ''wxyz''] 1 1 3))))"
  "js ''bc''
     = slice
         (getPlainText pageDeps
            (getCurrentContent pageDeps
               (stateAtEntry pageComponent
                  (pageEditor (pageState [js ''abcd'', js ''wxyz''] 1 1 3)))))
         (getStartOffset pageDeps
            (getSelection pageDeps
               (stateAtEntry pageComponent
                  (pageEditor (pageState [js ''abcd'', js ''wxyz''] 1 1 3)))))
         (getEndOffset pageDeps
            (getSelection pageDeps
               (stateAtEntry pageComponent
                  (pageEditor (pageState [js ''abcd'', js ''wxyz''] 1 1 3)))))"
  by (simp_all add: js_codes js_codes_page prop_absent stateAtEntry_nothing_pending slice_def)

section \<open>The claims\<close>

text \<open>
  C1. Character data that is not empty and that the prop does not handle, with a collapsed
  selection, in a run that returns normally: the handler allows native insertion (after
  the entry flush it calls neither \<^verbatim>\<open>preventDefault\<close> nor \<^verbatim>\<open>update\<close>) exactly when
  none of the five heuristics holds: leaf start in the latest committed state, tab in the
  span of the anchor node, fingerprint of the anchor block changed by the insertion,
  Firefox with \<open>'\<close> or \<open>/\<close>, direction of the anchor block changed by the insertion.
\<close>

theorem native_iff_no_heuristic:
  assumes "data e = Some chars" and "chars \<noteq> []"
    and "\<not> propHandled D C editor chars"
    and "isCollapsed D (getSelection D (stateAtEntry C editor))"
    and "thrown (editOnBeforeInput D C win editor e) = None"
  shows "allowsNative (sinceFlush C editor (editOnBeforeInput D C win editor e)) \<longleftrightarrow>
     \<not> (isSelectionAtLeafStart D (latestCommittedEditorState (ed (afterProp D C editor chars)))
        \<or> tabInSpanHolds win
        \<or> fingerprintDiffers D (stateAtEntry C editor)
             (insertion D (stateAtEntry C editor) chars)
             (getAnchorKey D (getSelection D (stateAtEntry C editor)))
        \<or> firefoxQuickfind D chars
        \<or> directionDiffers D (stateAtEntry C editor)
             (insertion D (stateAtEntry C editor) chars)
             (getAnchorKey D (getSelection D (stateAtEntry C editor))))"
  using collapsed_allowsNative [OF assms] decisionOf_value [of D C win editor chars]
  by simp

theorem native_iff_no_heuristic_witness:
  "thrown (editOnBeforeInput (docDeps False) (docComponent None) (caretIn (js ''ab''))
      (docEditor None (docState (js ''ab'') 1 1)) \<lparr>data = Some (js ''c'')\<rparr>) = None
   \<and> allowsNative
       (sinceFlush (docComponent None) (docEditor None (docState (js ''ab'') 1 1))
          (editOnBeforeInput (docDeps False) (docComponent None) (caretIn (js ''ab''))
             (docEditor None (docState (js ''ab'') 1 1)) \<lparr>data = Some (js ''c'')\<rparr>))
   \<and> \<not> tabInSpanHolds (caretIn (js ''ab''))
   \<and> \<not> firefoxQuickfind (docDeps False) (js ''c'')"
proof -
  have h1: "data \<lparr>data = Some (js ''c'')\<rparr> = Some (js ''c'')" by simp
  have c: "js ''c'' \<noteq> []"
    "\<not> propHandled (docDeps False) (docComponent None)
        (docEditor None (docState (js ''ab'') 1 1)) (js ''c'')"
    "isCollapsed (docDeps False)
       (getSelection (docDeps False)
          (stateAtEntry (docComponent None) (docEditor None (docState (js ''ab'') 1 1))))"
    by (simp_all add: js_codes prop_absent stateAtEntry_nothing_pending)
  have h5: "thrown (editOnBeforeInput (docDeps False) (docComponent None) (caretIn (js ''ab''))
      (docEditor None (docState (js ''ab'') 1 1)) \<lparr>data = Some (js ''c'')\<rparr>) = None"
    unfolding collapsed_thrown [OF h1 c] decision_native by simp
  have n: "allowsNative
       (sinceFlush (docComponent None) (docEditor None (docState (js ''ab'') 1 1))
          (editOnBeforeInput (docDeps False) (docComponent None) (caretIn (js ''ab''))
             (docEditor None (docState (js ''ab'') 1 1)) \<lparr>data = Some (js ''c'')\<rparr>))"
    unfolding collapsed_allowsNative(1) [OF h1 c h5] decision_native by simp
  from h5 n native_iff_no_heuristic [OF h1 c h5]
  show ?thesis by simp
qed

text \<open>
  C2. Character data that is not empty and that the prop does not handle, with a selection
  that is not collapsed: after the entry flush the handler calls \<^verbatim>\<open>preventDefault\<close>
  and then \<^verbatim>\<open>editor.update\<close>, once each, and returns; the editor's fields are those
  the update leaves. No callback is scheduled, so the insertion is never left to the
  browser.
\<close>

theorem selection_not_collapsed_rerenders:
  assumes "data e = Some chars" and "chars \<noteq> []"
    and "\<not> propHandled D C editor chars"
    and "\<not> isCollapsed D (getSelection D (stateAtEntry C editor))"
  shows "(\<exists>s. filter intercepts (sinceFlush C editor (editOnBeforeInput D C win editor e))
                = [PreventDefault, Update s]
            \<and> ed (editOnBeforeInput D C win editor e)
                = editor_update C s (ed (afterProp D C editor chars)))
     \<and> SetImmediate \<notin> set (sinceFlush C editor (editOnBeforeInput D C win editor e))
     \<and> \<not> allowsNative (sinceFlush C editor (editOnBeforeInput D C win editor e))
     \<and> thrown (editOnBeforeInput D C win editor e) = None"
proof (cases "chars = slice (getPlainText D (getCurrentContent D (stateAtEntry C editor)))
           (getStartOffset D (getSelection D (stateAtEntry C editor)))
           (getEndOffset D (getSelection D (stateAtEntry C editor)))")
  case True
  from selected_same [OF assms True, of win] show ?thesis
    by (simp add: allowsNative_def)
next
  case False
  from selected_other [OF assms False, of win] show ?thesis
    by (simp add: allowsNative_def)
qed

theorem selection_not_collapsed_rerenders_witness:
  "\<not> isCollapsed (docDeps False)
       (getSelection (docDeps False)
          (stateAtEntry (docComponent None) (docEditor None (docState (js ''abcd'') 1 3))))
   \<and> \<not> allowsNative
         (sinceFlush (docComponent None) (docEditor None (docState (js ''abcd'') 1 3))
            (editOnBeforeInput (docDeps False) (docComponent None) (caretIn (js ''abcd''))
               (docEditor None (docState (js ''abcd'') 1 3)) \<lparr>data = Some (js ''x'')\<rparr>))"
proof -
  have h1: "data \<lparr>data = Some (js ''x'')\<rparr> = Some (js ''x'')" by simp
  have h2: "js ''x'' \<noteq> []" by (simp add: js_codes)
  have h3: "\<not> propHandled (docDeps False) (docComponent None)
                (docEditor None (docState (js ''abcd'') 1 3)) (js ''x'')"
    by (simp add: prop_absent)
  have h4: "\<not> isCollapsed (docDeps False)
       (getSelection (docDeps False)
          (stateAtEntry (docComponent None) (docEditor None (docState (js ''abcd'') 1 3))))"
    by (simp add: stateAtEntry_nothing_pending)
  from h4 selection_not_collapsed_rerenders [OF h1 h2 h3 h4, of "caretIn (js ''abcd'')"]
  show ?thesis by simp
qed

text \<open>
  What the handler does where it replaces: for character data that is not empty and that
  the prop does not handle, in a prevent-native branch of a collapsed selection (normal
  return, one of the five heuristics holding) and in the branch of a selection that is not
  collapsed where the characters differ from the slice of the plain text the handler
  compares them with, the handler calls \<^verbatim>\<open>preventDefault\<close> and \<^verbatim>\<open>update\<close>, and the
  state it gives to \<^verbatim>\<open>update\<close> is \<open>s\<close>: the content in which the selection is replaced
  by the characters, with the current inline style and the entity key for the selection,
  pushed onto the state at entry as an \<open>insert-characters\<close> change.
\<close>

lemma replacement_where_intercepted:
  assumes "data e = Some chars" and "chars \<noteq> []"
    and "\<not> propHandled D C editor chars"
    and "(isCollapsed D (getSelection D (stateAtEntry C editor))
          \<and> thrown (editOnBeforeInput D C win editor e) = None
          \<and> (isSelectionAtLeafStart D
                (latestCommittedEditorState (ed (afterProp D C editor chars)))
              \<or> tabInSpanHolds win
              \<or> fingerprintDiffers D (stateAtEntry C editor) s
                   (getAnchorKey D (getSelection D (stateAtEntry C editor)))
              \<or> firefoxQuickfind D chars
              \<or> directionDiffers D (stateAtEntry C editor) s
                   (getAnchorKey D (getSelection D (stateAtEntry C editor)))))
         \<or> (\<not> isCollapsed D (getSelection D (stateAtEntry C editor))
             \<and> chars \<noteq> slice (getPlainText D (getCurrentContent D (stateAtEntry C editor)))
                          (getStartOffset D (getSelection D (stateAtEntry C editor)))
                          (getEndOffset D (getSelection D (stateAtEntry C editor))))"
    and "s = push D (stateAtEntry C editor)
               (DraftModifier_replaceText D (getCurrentContent D (stateAtEntry C editor))
                  (getSelection D (stateAtEntry C editor)) chars
                  (getCurrentInlineStyle D (stateAtEntry C editor))
                  (getEntityKeyForSelection D (getCurrentContent D (stateAtEntry C editor))
                     (getSelection D (stateAtEntry C editor))))
               (js ''insert-characters'')"
  shows "filter intercepts (sinceFlush C editor (editOnBeforeInput D C win editor e))
           = [PreventDefault, Update s]
     \<and> ReplaceText s \<in> set (sinceFlush C editor (editOnBeforeInput D C win editor e))
     \<and> ed (editOnBeforeInput D C win editor e)
         = editor_update C s (ed (afterProp D C editor chars))"
proof -
  have s: "s = insertion D (stateAtEntry C editor) chars"
    using assms(5) by (simp add: insertion_def)
  show ?thesis
  proof (cases "isCollapsed D (getSelection D (stateAtEntry C editor))")
    case True
    with assms(4) have t: "thrown (editOnBeforeInput D C win editor e) = None"
      and h: "isSelectionAtLeafStart D
                (latestCommittedEditorState (ed (afterProp D C editor chars)))
              \<or> tabInSpanHolds win
              \<or> fingerprintDiffers D (stateAtEntry C editor) s
                   (getAnchorKey D (getSelection D (stateAtEntry C editor)))
              \<or> firefoxQuickfind D chars
              \<or> directionDiffers D (stateAtEntry C editor) s
                   (getAnchorKey D (getSelection D (stateAtEntry C editor)))"
      by blast+
    have r: "raised (decisionOf D C win editor chars) = None"
      using collapsed_thrown [OF assms(1-3) True, of win] t by simp
    have "mustPreventNative (decisionOf D C win editor chars)"
      using decisionOf_value [OF r] h unfolding s by blast
    from collapsed_prevented [OF assms(1-3) True r this] show ?thesis
      by (simp add: s)
  next
    case False
    with assms(4)
    have "chars \<noteq> slice (getPlainText D (getCurrentContent D (stateAtEntry C editor)))
                      (getStartOffset D (getSelection D (stateAtEntry C editor)))
                      (getEndOffset D (getSelection D (stateAtEntry C editor)))"
      by blast
    from selected_other [OF assms(1-3) False this, of win] show ?thesis
      by (simp add: s)
  qed
qed

text \<open>
  C3. The claim fails on the code for a selection that is not collapsed. The handler does
  not compare the typed characters with the selected text: it compares them with the
  slice of the plain text of the whole document between the two offsets of the selection,
  and these count from the start of the selection's block. In the document of the two
  blocks \<open>abcd\<close> and \<open>wxyz\<close>, with \<open>xy\<close> selected in the second block and \<open>bc\<close>
  typed, the selected text differs from the typed characters, and the prop does not handle
  the event. The handler takes the branch of the matching text all the same: it calls
  \<^verbatim>\<open>preventDefault\<close> and \<^verbatim>\<open>update\<close> with the state at entry, the selection moved
  to offset 3. It computes no replacement state, and the content given to \<^verbatim>\<open>update\<close>
  still reads \<open>wxyz\<close> where the claim has \<open>wbcz\<close>.
\<close>

theorem selected_text_differs_nothing_replaced:
  "selectedText (pageState [js ''abcd'', js ''wxyz''] 1 1 3) = js ''xy''
   \<and> js ''xy'' \<noteq> js ''bc''
   \<and> \<not> isCollapsed pageDeps
         (getSelection pageDeps
            (stateAtEntry pageComponent
               (pageEditor (pageState [js ''abcd'', js ''wxyz''] 1 1 3))))
   \<and> \<not> propHandled pageDeps pageComponent
         (pageEditor (pageState [js ''abcd'', js ''wxyz''] 1 1 3)) (js ''bc'')
   \<and> log (editOnBeforeInput pageDeps pageComponent (caretIn (js ''wxyz''))
            (pageEditor (pageState [js ''abcd'', js ''wxyz''] 1 1 3))
            \<lparr>data = Some (js ''bc'')\<rparr>)
       = [PreventDefault, Update (pageState [js ''abcd'', js ''wxyz''] 1 3 3)]
   \<and> insertion pageDeps (pageState [js ''abcd'', js ''wxyz''] 1 1 3) (js ''bc'')
       = pageState [js ''abcd'', js ''wbcz''] 1 1 3"
proof -
  have l: "log (editOnBeforeInput pageDeps pageComponent (caretIn (js ''wxyz''))
            (pageEditor (pageState [js ''abcd'', js ''wxyz''] 1 1 3))
            \<lparr>data = Some (js ''bc'')\<rparr>)
       = [PreventDefault, Update (pageState [js ''abcd'', js ''wxyz''] 1 3 3)]"
    unfolding log_after_flush [of pageDeps pageComponent "caretIn (js ''wxyz'')"
        "pageEditor (pageState [js ''abcd'', js ''wxyz''] 1 1 3)" "\<lparr>data = Some (js ''bc'')\<rparr>"]
      selected_same(1) [OF page_path]
    by (simp add: flushed_nothing_pending enter_def stateAtEntry_nothing_pending pageState_def)
  have i: "insertion pageDeps (pageState [js ''abcd'', js ''wxyz''] 1 1 3) (js ''bc'')
       = pageState [js ''abcd'', js ''wbcz''] 1 1 3"
    by (simp add: insertion_def blockText_def js_codes js_codes_page pageState_def)
  have t: "selectedText (pageState [js ''abcd'', js ''wxyz''] 1 1 3) = js ''xy''"
    by (simp add: selectedText_def blockText_def slice_def js_codes js_codes_page)
  have d: "js ''xy'' \<noteq> js ''bc''"
    by (simp add: js_codes js_codes_page)
  from t d page_path(3,4) l i show ?thesis by blast
qed

text \<open>
  C4. Character data that is not empty, a collapsed selection, no leaf start, and the tab
  check evaluating to false. When the fingerprint of the anchor block differs between the
  state at entry and the state after the insertion, the handler calls \<^verbatim>\<open>preventDefault\<close>
  and schedules no callback; when the prop has not handled the event, it then updates the
  editor with the state after the insertion. When the two fingerprints are equal, the
  event is not handled by the prop and the run returns normally, native insertion is
  allowed exactly when neither the Firefox check nor the direction check holds: the
  fingerprint check itself prevents nothing.
\<close>

theorem fingerprint_check:
  assumes "data e = Some chars" and "chars \<noteq> []"
    and "isCollapsed D (getSelection D (stateAtEntry C editor))"
    and "\<not> isSelectionAtLeafStart D
             (latestCommittedEditorState (ed (afterProp D C editor chars)))"
    and "tabInSpan win = Inr False"
    and "n = insertion D (stateAtEntry C editor) chars"
    and "k = getAnchorKey D (getSelection D (stateAtEntry C editor))"
  shows "(fingerprintDiffers D (stateAtEntry C editor) n k
            \<longrightarrow> PreventDefault \<in> set (sinceFlush C editor (editOnBeforeInput D C win editor e))
                \<and> SetImmediate \<notin> set (sinceFlush C editor (editOnBeforeInput D C win editor e)))
     \<and> (fingerprintDiffers D (stateAtEntry C editor) n k \<and> \<not> propHandled D C editor chars
            \<longrightarrow> sinceFlush C editor (editOnBeforeInput D C win editor e)
                  = [ReplaceText n, PreventDefault, Update n])
     \<and> (\<not> fingerprintDiffers D (stateAtEntry C editor) n k \<and> \<not> propHandled D C editor chars
          \<and> thrown (editOnBeforeInput D C win editor e) = None
            \<longrightarrow> (allowsNative (sinceFlush C editor (editOnBeforeInput D C win editor e))
                  \<longleftrightarrow> \<not> firefoxQuickfind D chars
                       \<and> \<not> directionDiffers D (stateAtEntry C editor) n k))"
proof -
  have differs: "sinceFlush C editor (editOnBeforeInput D C win editor e)
                  = [ReplaceText n, PreventDefault, Update n]"
    if f: "fingerprintDiffers D (stateAtEntry C editor) n k"
      and p: "\<not> propHandled D C editor chars"
  proof -
    have d: "decisionOf D C win editor chars
       = \<lparr>mustPreventNative = True,
          evaluated = [(LeafStart, Inr False), (TabInSpan, Inr False),
            (FingerprintChanged, Inr True)],
          raised = None\<rparr>"
      unfolding decisionOf_def
      using assms(4,5) f unfolding assms(6,7) by (rule decideNative_fingerprint)
    have "raised (decisionOf D C win editor chars) = None"
      and "mustPreventNative (decisionOf D C win editor chars)"
      by (simp_all add: d)
    from collapsed_prevented(1) [OF assms(1,2) p assms(3) this]
    show ?thesis by (simp add: assms(6))
  qed
  have part1: "PreventDefault \<in> set (sinceFlush C editor (editOnBeforeInput D C win editor e))
      \<and> SetImmediate \<notin> set (sinceFlush C editor (editOnBeforeInput D C win editor e))"
    if f: "fingerprintDiffers D (stateAtEntry C editor) n k"
  proof (cases "propHandled D C editor chars")
    case True
    from handled(1) [OF assms(1,2) True, of win] show ?thesis by simp
  next
    case False
    from differs [OF f False] show ?thesis by simp
  qed
  have equal: "allowsNative (sinceFlush C editor (editOnBeforeInput D C win editor e))
                  \<longleftrightarrow> \<not> firefoxQuickfind D chars
                       \<and> \<not> directionDiffers D (stateAtEntry C editor) n k"
    if f: "\<not> fingerprintDiffers D (stateAtEntry C editor) n k"
      and p: "\<not> propHandled D C editor chars"
      and t: "thrown (editOnBeforeInput D C win editor e) = None"
  proof -
    have tab: "\<not> tabInSpanHolds win"
      using tabInSpan_value [OF assms(5)] by simp
    from collapsed_allowsNative [OF assms(1,2) p assms(3) t]
      decisionOf_value [of D C win editor chars] assms(4) tab f
    show ?thesis by (simp add: assms(6,7))
  qed
  from part1 differs equal show ?thesis by blast
qed

theorem fingerprint_check_witness:
  "fingerprintDiffers (docDeps False) (docState (js ''ab'') 1 1) (docState (js ''a@b'') 1 1)
     (js ''a'')
   \<and> sinceFlush (docComponent None) (docEditor None (docState (js ''ab'') 1 1))
       (editOnBeforeInput (docDeps False) (docComponent None) (caretIn (js ''ab''))
          (docEditor None (docState (js ''ab'') 1 1)) \<lparr>data = Some (js ''@'')\<rparr>)
     = [ReplaceText (docState (js ''a@b'') 1 1), PreventDefault,
        Update (docState (js ''a@b'') 1 1)]"
proof -
  have h1: "data \<lparr>data = Some (js ''@'')\<rparr> = Some (js ''@'')" by simp
  have h2: "js ''@'' \<noteq> []" by (simp add: js_codes)
  have h3: "isCollapsed (docDeps False)
       (getSelection (docDeps False)
          (stateAtEntry (docComponent None) (docEditor None (docState (js ''ab'') 1 1))))"
    by (simp add: stateAtEntry_nothing_pending)
  have h4: "\<not> isSelectionAtLeafStart (docDeps False)
       (latestCommittedEditorState
          (ed (afterProp (docDeps False) (docComponent None)
                 (docEditor None (docState (js ''ab'') 1 1)) (js ''@''))))"
    by (simp add: prop_absent flushed_nothing_pending enter_def)
  have h5: "tabInSpan (caretIn (js ''ab'')) = Inr False"
    by (simp add: tabInSpan_caretIn js_codes)
  have h6: "docState (js ''a@b'') 1 1
     = insertion (docDeps False)
         (stateAtEntry (docComponent None) (docEditor None (docState (js ''ab'') 1 1)))
         (js ''@'')"
    by (simp add: insertion_def stateAtEntry_nothing_pending js_codes docState_def)
  have h7: "js ''a''
     = getAnchorKey (docDeps False)
         (getSelection (docDeps False)
            (stateAtEntry (docComponent None) (docEditor None (docState (js ''ab'') 1 1))))"
    by simp
  have f: "fingerprintDiffers (docDeps False) (docState (js ''ab'') 1 1)
             (docState (js ''a@b'') 1 1) (js ''a'')"
    by (simp add: fingerprintDiffers_def js_codes)
  have p: "\<not> propHandled (docDeps False) (docComponent None)
                (docEditor None (docState (js ''ab'') 1 1)) (js ''@'')"
    by (simp add: prop_absent)
  from f p fingerprint_check [OF h1 h2 h3 h4 h5 h6 h7]
  show ?thesis by (simp add: stateAtEntry_nothing_pending)
qed

text \<open>
  C5. \<^verbatim>\<open>mustPreventDefaultForCharacter\<close> is true exactly when the browser is Firefox and
  the string is \<open>'\<close> or \<open>/\<close>. With such an event on Firefox the handler never takes
  the native path: it schedules no callback, and when it returns normally it has called
  \<^verbatim>\<open>preventDefault\<close>. This holds for every selection, collapsed or not.
\<close>

theorem firefox_quickfind_never_native:
  "mustPreventDefaultForCharacter D character
     = (isFirefox D \<and> (character = js [CHR 0x27] \<or> character = js ''/''))
   \<and> (isFirefox D \<and> (chars = js [CHR 0x27] \<or> chars = js ''/'') \<and> data e = Some chars
        \<longrightarrow> SetImmediate \<notin> set (sinceFlush C editor (editOnBeforeInput D C win editor e))
            \<and> (thrown (editOnBeforeInput D C win editor e) = None
                 \<longrightarrow> PreventDefault
                       \<in> set (sinceFlush C editor (editOnBeforeInput D C win editor e))))"
proof -
  have "SetImmediate \<notin> set (sinceFlush C editor (editOnBeforeInput D C win editor e))
            \<and> (thrown (editOnBeforeInput D C win editor e) = None
                 \<longrightarrow> PreventDefault
                       \<in> set (sinceFlush C editor (editOnBeforeInput D C win editor e)))"
    if ff: "firefoxQuickfind D chars" and d: "data e = Some chars"
  proof (rule eobi_cases [of e _ D C editor])
    assume "data e = None \<or> data e = Some []"
    with ff d show ?thesis by (auto simp: firefoxQuickfind_def)
  next
    fix c assume c: "data e = Some c" "c \<noteq> []" "propHandled D C editor c"
    from handled(1) [OF c, of win] show ?thesis by simp
  next
    fix c assume c: "data e = Some c" "c \<noteq> []" "\<not> propHandled D C editor c"
      "\<not> isCollapsed D (getSelection D (stateAtEntry C editor))"
    show ?thesis
    proof (cases "c = slice (getPlainText D (getCurrentContent D (stateAtEntry C editor)))
           (getStartOffset D (getSelection D (stateAtEntry C editor)))
           (getEndOffset D (getSelection D (stateAtEntry C editor)))")
      case True
      from selected_same(1) [OF c True, of win] show ?thesis by simp
    next
      case False
      from selected_other(1) [OF c False, of win] show ?thesis by simp
    qed
  next
    fix c assume c: "data e = Some c" "c \<noteq> []" "\<not> propHandled D C editor c"
      "isCollapsed D (getSelection D (stateAtEntry C editor))"
    with d have cc: "c = chars" by simp
    show ?thesis
    proof (cases "raised (decisionOf D C win editor c)")
      case (Some err)
      from collapsed_raised(1) [OF c Some] collapsed_thrown [OF c, of win] Some
      show ?thesis by simp
    next
      case None
      with decisionOf_value [of D C win editor c] ff cc
      have "mustPreventNative (decisionOf D C win editor c)" by simp
      from collapsed_prevented(1) [OF c None this] show ?thesis by simp
    qed
  qed
  then show ?thesis
    by (simp add: mustPreventDefaultForCharacter_eq firefoxQuickfind_def js_codes)
qed

theorem firefox_quickfind_never_native_witness:
  "isFirefox (docDeps True)
   \<and> thrown (editOnBeforeInput (docDeps True) (docComponent None) (caretIn (js ''ab''))
        (docEditor None (docState (js ''ab'') 1 1)) \<lparr>data = Some (js [CHR 0x27])\<rparr>) = None
   \<and> PreventDefault
       \<in> set (sinceFlush (docComponent None) (docEditor None (docState (js ''ab'') 1 1))
                (editOnBeforeInput (docDeps True) (docComponent None) (caretIn (js ''ab''))
                   (docEditor None (docState (js ''ab'') 1 1))
                   \<lparr>data = Some (js [CHR 0x27])\<rparr>))"
proof -
  have t: "thrown (editOnBeforeInput (docDeps True) (docComponent None) (caretIn (js ''ab''))
        (docEditor None (docState (js ''ab'') 1 1)) \<lparr>data = Some (js [CHR 0x27])\<rparr>) = None"
    unfolding collapsed_thrown [OF quote_path] decision_quote by simp
  from t firefox_quickfind_never_native [of "docDeps True" "js [CHR 0x27]" "js [CHR 0x27]"
      "\<lparr>data = Some (js [CHR 0x27])\<rparr>" "docComponent None"
      "docEditor None (docState (js ''ab'') 1 1)" "caretIn (js ''ab'')"]
  show ?thesis by simp
qed

text \<open>
  C6. An event whose character data is absent or empty: the handler returns at once. It
  is the entry flush alone: after it no call is made, and the editor's fields are as the
  flush left them; with nothing pending the editor is untouched and no call is made at
  all.
\<close>

theorem empty_data_returns_at_once:
  assumes "data e = None \<or> data e = Some []"
  shows "editOnBeforeInput D C win editor e = flushed C editor
     \<and> sinceFlush C editor (editOnBeforeInput D C win editor e) = []
     \<and> (pendingStateFromBeforeInput editor = None
          \<longrightarrow> ed (editOnBeforeInput D C win editor e) = editor
              \<and> log (editOnBeforeInput D C win editor e) = [])"
  using assms
  by (simp add: eobi_no_data sinceFlush_def flushed_def flushPending_def enter_def)

theorem empty_data_returns_at_once_witness:
  "data \<lparr>data = Some []\<rparr> = Some []
   \<and> editOnBeforeInput (docDeps False) (docComponent None) (caretIn (js ''ab''))
       (docEditor None (docState (js ''ab'') 1 1)) \<lparr>data = Some []\<rparr>
     = enter (docEditor None (docState (js ''ab'') 1 1))"
  using empty_data_returns_at_once [of "\<lparr>data = Some []\<rparr>" "docDeps False" "docComponent None"
      "caretIn (js ''ab'')" "docEditor None (docState (js ''ab'') 1 1)"]
  by (simp add: flushed_def flushPending_def enter_def docEditor_def)

text \<open>
  C7, as stated, fails. On Firefox, with the caret inside \<open>ab\<close> and \<open>'\<close> typed, the
  handler evaluates the Firefox check right after the fingerprint check, and the direction
  check not at all: the heuristics it evaluates do not follow the sequence in which the
  spec lists them, where the direction check comes before the Firefox check.
\<close>

theorem listed_sequence_counterexample:
  "performed
     (editOnBeforeInput (docDeps True) (docComponent None) (caretIn (js ''ab''))
        (docEditor None (docState (js ''ab'') 1 1)) \<lparr>data = Some (js [CHR 0x27])\<rparr>)
   = [(SelectionCollapsed, Inr False), (LeafStart, Inr False), (TabInSpan, Inr False),
      (FingerprintChanged, Inr False), (FirefoxQuickfind, Inr True)]
   \<and> \<not> inSequence listedSequence
         (performed
            (editOnBeforeInput (docDeps True) (docComponent None) (caretIn (js ''ab''))
               (docEditor None (docState (js ''ab'') 1 1))
               \<lparr>data = Some (js [CHR 0x27])\<rparr>))"
  unfolding collapsed_performed [OF quote_path] decision_quote
  by (simp add: inSequence_def listedSequence_def)

text \<open>
  C7, amended. The heuristics are evaluated in the sequence: selection collapsed, leaf
  start, tab in span, fingerprint changed, Firefox quickfind character, direction changed;
  each later check is performed only if no earlier one has forced prevention. For an event
  that reaches the decision (data not empty, not handled by the prop) the checks evaluated
  are exactly those of this sequence up to and including the first that forces prevention
  or throws, and all six, the direction check last, when none does. An event that does not
  reach the decision has no check evaluated.
\<close>

theorem checks_in_source_sequence:
  "inSequence sourceSequence (performed (editOnBeforeInput D C win editor e))
   \<and> (data e = Some chars \<and> chars \<noteq> [] \<and> \<not> propHandled D C editor chars
        \<and> n = insertion D (stateAtEntry C editor) chars
        \<and> k = getAnchorKey D (getSelection D (stateAtEntry C editor))
      \<longrightarrow> performed (editOnBeforeInput D C win editor e)
            = upToDecisive
                [(SelectionCollapsed,
                    Inr (\<not> isCollapsed D (getSelection D (stateAtEntry C editor)))),
                 (LeafStart,
                    Inr (isSelectionAtLeafStart D
                           (latestCommittedEditorState (ed (afterProp D C editor chars))))),
                 (TabInSpan, tabInSpan win),
                 (FingerprintChanged, Inr (fingerprintDiffers D (stateAtEntry C editor) n k)),
                 (FirefoxQuickfind, Inr (mustPreventDefaultForCharacter D chars)),
                 (DirectionChanged, directionChanged D n (stateAtEntry C editor) k)]
          \<and> (isCollapsed D (getSelection D (stateAtEntry C editor))
               \<and> \<not> isSelectionAtLeafStart D
                      (latestCommittedEditorState (ed (afterProp D C editor chars)))
               \<and> tabInSpan win = Inr False
               \<and> \<not> fingerprintDiffers D (stateAtEntry C editor) n k
               \<and> \<not> mustPreventDefaultForCharacter D chars
             \<longrightarrow> map fst (performed (editOnBeforeInput D C win editor e)) = sourceSequence))
   \<and> (data e = None \<or> data e = Some [] \<or> (data e = Some chars \<and> propHandled D C editor chars)
      \<longrightarrow> performed (editOnBeforeInput D C win editor e) = [])"
proof -
  have seq: "inSequence sourceSequence (performed (editOnBeforeInput D C win editor e))"
  proof (rule eobi_cases [of e _ D C editor])
    assume "data e = None \<or> data e = Some []"
    then show ?thesis by (simp add: eobi_no_data inSequence_def)
  next
    fix c assume c: "data e = Some c" "c \<noteq> []" "propHandled D C editor c"
    from handled(4) [OF c, of win] show ?thesis by (simp add: inSequence_def)
  next
    fix c assume c: "data e = Some c" "c \<noteq> []" "\<not> propHandled D C editor c"
      "\<not> isCollapsed D (getSelection D (stateAtEntry C editor))"
    have "performed (editOnBeforeInput D C win editor e) = [(SelectionCollapsed, Inr True)]"
    proof (cases "c = slice (getPlainText D (getCurrentContent D (stateAtEntry C editor)))
           (getStartOffset D (getSelection D (stateAtEntry C editor)))
           (getEndOffset D (getSelection D (stateAtEntry C editor)))")
      case True
      from selected_same(4) [OF c True] show ?thesis .
    next
      case False
      from selected_other(4) [OF c False] show ?thesis .
    qed
    then show ?thesis by (simp add: inSequence_def sourceSequence_def)
  next
    fix c assume c: "data e = Some c" "c \<noteq> []" "\<not> propHandled D C editor c"
      "isCollapsed D (getSelection D (stateAtEntry C editor))"
    have "follows [LeafStart, TabInSpan, FingerprintChanged, FirefoxQuickfind, DirectionChanged]
            (decisionOf D C win editor c)"
      unfolding decisionOf_def by (rule decideNative_follows)
    from follows_inSequence [OF this] show ?thesis
      by (simp add: collapsed_performed [OF c] sourceSequence_def)
  qed
  have exact: "performed (editOnBeforeInput D C win editor e)
            = upToDecisive
                [(SelectionCollapsed,
                    Inr (\<not> isCollapsed D (getSelection D (stateAtEntry C editor)))),
                 (LeafStart,
                    Inr (isSelectionAtLeafStart D
                           (latestCommittedEditorState (ed (afterProp D C editor chars))))),
                 (TabInSpan, tabInSpan win),
                 (FingerprintChanged, Inr (fingerprintDiffers D (stateAtEntry C editor) n k)),
                 (FirefoxQuickfind, Inr (mustPreventDefaultForCharacter D chars)),
                 (DirectionChanged, directionChanged D n (stateAtEntry C editor) k)]"
    if c: "data e = Some chars" "chars \<noteq> []" "\<not> propHandled D C editor chars"
      and n: "n = insertion D (stateAtEntry C editor) chars"
      and k: "k = getAnchorKey D (getSelection D (stateAtEntry C editor))"
  proof (cases "isCollapsed D (getSelection D (stateAtEntry C editor))")
    case True
    have "evaluated (decisionOf D C win editor chars)
          = upToDecisive
              [(LeafStart,
                  Inr (isSelectionAtLeafStart D
                         (latestCommittedEditorState (ed (afterProp D C editor chars))))),
               (TabInSpan, tabInSpan win),
               (FingerprintChanged, Inr (fingerprintDiffers D (stateAtEntry C editor) n k)),
               (FirefoxQuickfind, Inr (mustPreventDefaultForCharacter D chars)),
               (DirectionChanged, directionChanged D n (stateAtEntry C editor) k)]"
      using decideNative_tracks
        [of D "latestCommittedEditorState (ed (afterProp D C editor chars))" win
          "stateAtEntry C editor" n k chars]
      unfolding tracks_def decisionOf_def n k by (rule conjunct1)
    with True show ?thesis
      by (simp add: collapsed_performed [OF c True])
  next
    case False
    have "performed (editOnBeforeInput D C win editor e) = [(SelectionCollapsed, Inr True)]"
    proof (cases "chars = slice (getPlainText D (getCurrentContent D (stateAtEntry C editor)))
           (getStartOffset D (getSelection D (stateAtEntry C editor)))
           (getEndOffset D (getSelection D (stateAtEntry C editor)))")
      case True
      from selected_same(4) [OF c False True] show ?thesis .
    next
      case same: False
      from selected_other(4) [OF c False same] show ?thesis .
    qed
    with False show ?thesis by simp
  qed
  have none: "performed (editOnBeforeInput D C win editor e) = []"
    if "data e = None \<or> data e = Some [] \<or> (data e = Some chars \<and> propHandled D C editor chars)"
  proof (cases "data e = None \<or> data e = Some []")
    case True
    then show ?thesis by (simp add: eobi_no_data)
  next
    case False
    with that have c: "data e = Some chars" "chars \<noteq> []" "propHandled D C editor chars"
      by auto
    from handled(4) [OF c] show ?thesis .
  qed
  from seq exact none show ?thesis
    by (auto simp: sourceSequence_def)
qed

theorem checks_in_source_sequence_witness:
  "performed
     (editOnBeforeInput (docDeps False) (docComponent None) (caretIn (js ''ab''))
        (docEditor None (docState (js ''ab'') 1 1)) \<lparr>data = Some (js ''c'')\<rparr>)
   = [(SelectionCollapsed, Inr False), (LeafStart, Inr False), (TabInSpan, Inr False),
      (FingerprintChanged, Inr False), (FirefoxQuickfind, Inr False),
      (DirectionChanged, Inr False)]
   \<and> map fst
       (performed
          (editOnBeforeInput (docDeps False) (docComponent None) (caretIn (js ''ab''))
             (docEditor None (docState (js ''ab'') 1 1)) \<lparr>data = Some (js ''c'')\<rparr>))
     = sourceSequence"
proof -
  have h4: "\<not> isSelectionAtLeafStart (docDeps False)
       (latestCommittedEditorState
          (ed (afterProp (docDeps False) (docComponent None)
                 (docEditor None (docState (js ''ab'') 1 1)) (js ''c''))))"
    by (simp add: prop_absent flushed_nothing_pending enter_def)
  have h5: "tabInSpan (caretIn (js ''ab'')) = Inr False"
    by (simp add: tabInSpan_caretIn js_codes)
  have h6: "\<not> fingerprintDiffers (docDeps False)
       (stateAtEntry (docComponent None) (docEditor None (docState (js ''ab'') 1 1)))
       (insertion (docDeps False)
          (stateAtEntry (docComponent None) (docEditor None (docState (js ''ab'') 1 1)))
          (js ''c'')) (js ''a'')"
    by (simp add: fingerprintDiffers_def insertion_def stateAtEntry_nothing_pending js_codes)
  have h7: "\<not> mustPreventDefaultForCharacter (docDeps False) (js ''c'')"
    by (simp add: mustPreventDefaultForCharacter_def)
  have h8: "directionChanged (docDeps False)
       (insertion (docDeps False)
          (stateAtEntry (docComponent None) (docEditor None (docState (js ''ab'') 1 1)))
          (js ''c''))
       (stateAtEntry (docComponent None) (docEditor None (docState (js ''ab'') 1 1)))
       (js ''a'') = Inr False"
    by (simp add: directionChanged_def insertion_def stateAtEntry_nothing_pending js_codes)
  have k: "js ''a''
     = getAnchorKey (docDeps False)
         (getSelection (docDeps False)
            (stateAtEntry (docComponent None) (docEditor None (docState (js ''ab'') 1 1))))"
    by simp
  note w = checks_in_source_sequence [of "docDeps False" "docComponent None"
      "caretIn (js ''ab'')" "docEditor None (docState (js ''ab'') 1 1)"
      "\<lparr>data = Some (js ''c'')\<rparr>" "js ''c''"
      "insertion (docDeps False)
          (stateAtEntry (docComponent None) (docEditor None (docState (js ''ab'') 1 1)))
          (js ''c'')" "js ''a''"]
  from w native_path k have p: "performed
     (editOnBeforeInput (docDeps False) (docComponent None) (caretIn (js ''ab''))
        (docEditor None (docState (js ''ab'') 1 1)) \<lparr>data = Some (js ''c'')\<rparr>)
   = upToDecisive
       [(SelectionCollapsed,
           Inr (\<not> isCollapsed (docDeps False)
                  (getSelection (docDeps False)
                     (stateAtEntry (docComponent None)
                        (docEditor None (docState (js ''ab'') 1 1)))))),
        (LeafStart,
           Inr (isSelectionAtLeafStart (docDeps False)
                  (latestCommittedEditorState
                     (ed (afterProp (docDeps False) (docComponent None)
                            (docEditor None (docState (js ''ab'') 1 1)) (js ''c'')))))),
        (TabInSpan, tabInSpan (caretIn (js ''ab''))),
        (FingerprintChanged,
           Inr (fingerprintDiffers (docDeps False)
                  (stateAtEntry (docComponent None) (docEditor None (docState (js ''ab'') 1 1)))
                  (insertion (docDeps False)
                     (stateAtEntry (docComponent None)
                        (docEditor None (docState (js ''ab'') 1 1)))
                     (js ''c'')) (js ''a''))),
        (FirefoxQuickfind, Inr (mustPreventDefaultForCharacter (docDeps False) (js ''c''))),
        (DirectionChanged,
           directionChanged (docDeps False)
             (insertion (docDeps False)
                (stateAtEntry (docComponent None) (docEditor None (docState (js ''ab'') 1 1)))
                (js ''c''))
             (stateAtEntry (docComponent None) (docEditor None (docState (js ''ab'') 1 1)))
             (js ''a''))]"
    by blast
  show ?thesis
    unfolding p h5 h8 using h4 h6 h7 native_path(4) by (simp add: sourceSequence_def)
qed

text \<open>
  C8. On the native path (data not empty, not handled by the prop, collapsed selection,
  normal return, native insertion allowed) the handler makes no update after the entry
  flush: it computes the state \<open>n\<close> after the insertion, stores \<open>p\<close>, which is \<open>n\<close> with
  \<^verbatim>\<open>nativelyRenderedContent\<close> set to the content of \<open>n\<close>, in
  \<^verbatim>\<open>_pendingStateFromBeforeInput\<close>, schedules the callback and returns. The callback
  and the entry flush of the next call of the handler each apply a pending state with
  \<^verbatim>\<open>update\<close> and leave the field undefined; whichever runs second finds nothing
  pending and does nothing.
\<close>

theorem native_path_defers_update:
  assumes "data e = Some chars" and "chars \<noteq> []"
    and "\<not> propHandled D C editor chars"
    and "isCollapsed D (getSelection D (stateAtEntry C editor))"
    and "thrown (editOnBeforeInput D C win editor e) = None"
    and "allowsNative (sinceFlush C editor (editOnBeforeInput D C win editor e))"
    and "n = insertion D (stateAtEntry C editor) chars"
    and "p = set_nativelyRenderedContent D n (getCurrentContent D n)"
    and "r = editOnBeforeInput D C win editor e"
  shows "sinceFlush C editor r = [ReplaceText n, SetImmediate]
     \<and> ed r = (ed (afterProp D C editor chars))\<lparr>pendingStateFromBeforeInput := Some p\<rparr>
     \<and> log (setImmediateCallback C (enter (ed r))) = [Update p]
     \<and> pendingStateFromBeforeInput (ed (setImmediateCallback C (enter (ed r)))) = None
     \<and> (\<exists>t. log (editOnBeforeInput D C win' (ed r) e') = Update p # t)
     \<and> pendingStateFromBeforeInput (ed (flushed C (ed r))) = None
     \<and> flushPending C (setImmediateCallback C x) = setImmediateCallback C x
     \<and> setImmediateCallback C (flushPending C x) = flushPending C x"
proof -
  have raised: "raised (decisionOf D C win editor chars) = None"
    and native: "\<not> mustPreventNative (decisionOf D C win editor chars)"
    using collapsed_allowsNative [OF assms(1-5)] assms(6) by simp_all
  note path = collapsed_native [OF assms(1-4) raised native]
  have pending: "pendingStateFromBeforeInput (ed (enter (ed r))) = Some p"
    by (simp add: enter_def assms(9) path(2) assms(7,8))
  have next_log: "log (flushed C (ed r)) = [Update p]"
    using flushPending_applies(1) [OF pending, of C] by (simp add: flushed_def enter_def)
  have "log (editOnBeforeInput D C win' (ed r) e')
          = Update p # sinceFlush C (ed r) (editOnBeforeInput D C win' (ed r) e')"
    using log_after_flush [of D C win' "ed r" e'] by (simp add: next_log)
  then have next_call: "\<exists>t. log (editOnBeforeInput D C win' (ed r) e') = Update p # t"
    by blast
  have idle: "flushPending C (setImmediateCallback C x) = setImmediateCallback C x"
    "setImmediateCallback C (flushPending C x) = flushPending C x"
    by (simp_all add: setImmediateCallback_def flushPending_idle flushPending_clears)
  have 1: "sinceFlush C editor r = [ReplaceText n, SetImmediate]"
    unfolding assms(9) path(1) assms(7) by (rule refl)
  have 2: "ed r = (ed (afterProp D C editor chars))\<lparr>pendingStateFromBeforeInput := Some p\<rparr>"
    unfolding assms(9) path(2) assms(7,8) by (rule refl)
  have 3: "log (setImmediateCallback C (enter (ed r))) = [Update p]"
    unfolding setImmediateCallback_def flushPending_applies(1) [OF pending]
    by (simp add: enter_def)
  have 4: "pendingStateFromBeforeInput (ed (setImmediateCallback C (enter (ed r)))) = None"
    unfolding setImmediateCallback_def by (rule flushPending_clears)
  have 5: "pendingStateFromBeforeInput (ed (flushed C (ed r))) = None"
    unfolding flushed_def by (rule flushPending_clears)
  from 1 2 3 4 next_call 5 idle show ?thesis by blast
qed

theorem native_path_defers_update_witness:
  "sinceFlush (docComponent None) (docEditor None (docState (js ''ab'') 1 1))
     (editOnBeforeInput (docDeps False) (docComponent None) (caretIn (js ''ab''))
        (docEditor None (docState (js ''ab'') 1 1)) \<lparr>data = Some (js ''c'')\<rparr>)
   = [ReplaceText (docState (js ''acb'') 1 1), SetImmediate]
   \<and> pendingStateFromBeforeInput
       (ed (editOnBeforeInput (docDeps False) (docComponent None) (caretIn (js ''ab''))
              (docEditor None (docState (js ''ab'') 1 1)) \<lparr>data = Some (js ''c'')\<rparr>))
     = Some ((docState (js ''acb'') 1 1)\<lparr>doc_native := Some (js ''acb'')\<rparr>)
   \<and> log (setImmediateCallback (docComponent None)
            (enter (ed (editOnBeforeInput (docDeps False) (docComponent None)
                          (caretIn (js ''ab'')) (docEditor None (docState (js ''ab'') 1 1))
                          \<lparr>data = Some (js ''c'')\<rparr>))))
     = [Update ((docState (js ''acb'') 1 1)\<lparr>doc_native := Some (js ''acb'')\<rparr>)]"
proof -
  have h5: "thrown (editOnBeforeInput (docDeps False) (docComponent None) (caretIn (js ''ab''))
      (docEditor None (docState (js ''ab'') 1 1)) \<lparr>data = Some (js ''c'')\<rparr>) = None"
    unfolding collapsed_thrown [OF native_path] decision_native by simp
  have h6: "allowsNative
       (sinceFlush (docComponent None) (docEditor None (docState (js ''ab'') 1 1))
          (editOnBeforeInput (docDeps False) (docComponent None) (caretIn (js ''ab''))
             (docEditor None (docState (js ''ab'') 1 1)) \<lparr>data = Some (js ''c'')\<rparr>))"
    unfolding collapsed_allowsNative(1) [OF native_path h5] decision_native by simp
  have h7: "docState (js ''acb'') 1 1
     = insertion (docDeps False)
         (stateAtEntry (docComponent None) (docEditor None (docState (js ''ab'') 1 1)))
         (js ''c'')"
    by (simp add: insertion_def stateAtEntry_nothing_pending js_codes docState_def)
  have h8: "(docState (js ''acb'') 1 1)\<lparr>doc_native := Some (js ''acb'')\<rparr>
     = set_nativelyRenderedContent (docDeps False) (docState (js ''acb'') 1 1)
         (getCurrentContent (docDeps False) (docState (js ''acb'') 1 1))"
    by simp
  note w = native_path_defers_update [OF native_path h5 h6 h7 h8 refl,
      where win' = None and e' = "\<lparr>data = None\<rparr>"
        and x = "enter (docEditor None (docState (js ''ab'') 1 1))"]
  from w have a: "sinceFlush (docComponent None) (docEditor None (docState (js ''ab'') 1 1))
     (editOnBeforeInput (docDeps False) (docComponent None) (caretIn (js ''ab''))
        (docEditor None (docState (js ''ab'') 1 1)) \<lparr>data = Some (js ''c'')\<rparr>)
   = [ReplaceText (docState (js ''acb'') 1 1), SetImmediate]"
    by (rule conjunct1)
  from w have b: "ed (editOnBeforeInput (docDeps False) (docComponent None) (caretIn (js ''ab''))
              (docEditor None (docState (js ''ab'') 1 1)) \<lparr>data = Some (js ''c'')\<rparr>)
     = (ed (afterProp (docDeps False) (docComponent None)
              (docEditor None (docState (js ''ab'') 1 1)) (js ''c'')))
         \<lparr>pendingStateFromBeforeInput :=
            Some ((docState (js ''acb'') 1 1)\<lparr>doc_native := Some (js ''acb'')\<rparr>)\<rparr>"
    by (rule conjunct2 [THEN conjunct1])
  from w have c: "log (setImmediateCallback (docComponent None)
            (enter (ed (editOnBeforeInput (docDeps False) (docComponent None)
                          (caretIn (js ''ab'')) (docEditor None (docState (js ''ab'') 1 1))
                          \<lparr>data = Some (js ''c'')\<rparr>))))
     = [Update ((docState (js ''acb'') 1 1)\<lparr>doc_native := Some (js ''acb'')\<rparr>)]"
    by (rule conjunct2 [THEN conjunct2, THEN conjunct1])
  have "pendingStateFromBeforeInput
       (ed (editOnBeforeInput (docDeps False) (docComponent None) (caretIn (js ''ab''))
              (docEditor None (docState (js ''ab'') 1 1)) \<lparr>data = Some (js ''c'')\<rparr>))
     = Some ((docState (js ''acb'') 1 1)\<lparr>doc_native := Some (js ''acb'')\<rparr>)"
    unfolding b by simp
  with a c show ?thesis by blast
qed

text \<open>
  C9, as stated, fails: the selection is not collapsed and the event's characters are
  exactly the selected slice of the plain text, yet the prop handles the event, and the
  handler calls \<^verbatim>\<open>preventDefault\<close> and returns. It never calls \<^verbatim>\<open>update\<close>; the
  selection of the editor keeps its two offsets.
\<close>

theorem same_text_handled_counterexample:
  "\<not> isCollapsed (docDeps False)
       (getSelection (docDeps False)
          (stateAtEntry (docComponent (Some handlesAll))
             (docEditor None (docState (js ''abcd'') 1 3))))
   \<and> data \<lparr>data = Some (js ''bc'')\<rparr>
       = Some (slice
                 (getPlainText (docDeps False)
                    (getCurrentContent (docDeps False)
                       (stateAtEntry (docComponent (Some handlesAll))
                          (docEditor None (docState (js ''abcd'') 1 3)))))
                 (getStartOffset (docDeps False)
                    (getSelection (docDeps False)
                       (stateAtEntry (docComponent (Some handlesAll))
                          (docEditor None (docState (js ''abcd'') 1 3)))))
                 (getEndOffset (docDeps False)
                    (getSelection (docDeps False)
                       (stateAtEntry (docComponent (Some handlesAll))
                          (docEditor None (docState (js ''abcd'') 1 3))))))
   \<and> log (editOnBeforeInput (docDeps False) (docComponent (Some handlesAll))
            (caretIn (js ''abcd'')) (docEditor None (docState (js ''abcd'') 1 3))
            \<lparr>data = Some (js ''bc'')\<rparr>)
       = [PreventDefault]
   \<and> ed (editOnBeforeInput (docDeps False) (docComponent (Some handlesAll))
            (caretIn (js ''abcd'')) (docEditor None (docState (js ''abcd'') 1 3))
            \<lparr>data = Some (js ''bc'')\<rparr>)
       = docEditor None (docState (js ''abcd'') 1 3)"
proof -
  have h1: "data \<lparr>data = Some (js ''bc'')\<rparr> = Some (js ''bc'')" by simp
  have h2: "js ''bc'' \<noteq> []" by (simp add: js_codes)
  have h3: "propHandled (docDeps False) (docComponent (Some handlesAll))
              (docEditor None (docState (js ''abcd'') 1 3)) (js ''bc'')"
    by (simp add: propHandled_def callHandleBeforeInput_def handlesAll_def)
  have a: "afterProp (docDeps False) (docComponent (Some handlesAll))
              (docEditor None (docState (js ''abcd'') 1 3)) (js ''bc'')
           = enter (docEditor None (docState (js ''abcd'') 1 3))"
    by (simp add: afterProp_def callHandleBeforeInput_def flushed_nothing_pending enter_def
        handlesAll_def)
  have l: "log (editOnBeforeInput (docDeps False) (docComponent (Some handlesAll))
            (caretIn (js ''abcd'')) (docEditor None (docState (js ''abcd'') 1 3))
            \<lparr>data = Some (js ''bc'')\<rparr>) = [PreventDefault]"
    and e: "ed (editOnBeforeInput (docDeps False) (docComponent (Some handlesAll))
            (caretIn (js ''abcd'')) (docEditor None (docState (js ''abcd'') 1 3))
            \<lparr>data = Some (js ''bc'')\<rparr>) = docEditor None (docState (js ''abcd'') 1 3)"
    unfolding eobi_handled [OF h1 h2 h3] a
    by (simp_all add: call_preventDefault_def enter_def)
  show ?thesis
    unfolding l e
    by (simp add: stateAtEntry_nothing_pending js_codes slice_def)
qed

text \<open>
  C9, amended. Character data that is not empty and that the prop does not handle, with a
  selection that is not collapsed, the characters being exactly the slice of the plain text
  between the start and the end offset of the selection: after the entry flush the handler
  calls \<^verbatim>\<open>preventDefault\<close> and then \<^verbatim>\<open>update\<close>, and nothing else; no replacement
  state is computed. The state given to \<^verbatim>\<open>update\<close> is the state at entry with the
  selection forced to the old one merged with both offsets set to its end offset. Where
  \<^verbatim>\<open>forceSelection\<close> keeps the content of a state, the content is unchanged.
\<close>

theorem same_text_collapses_selection:
  assumes "data e = Some chars" and "chars \<noteq> []"
    and "\<not> propHandled D C editor chars"
    and "\<not> isCollapsed D (getSelection D (stateAtEntry C editor))"
    and "chars = slice (getPlainText D (getCurrentContent D (stateAtEntry C editor)))
           (getStartOffset D (getSelection D (stateAtEntry C editor)))
           (getEndOffset D (getSelection D (stateAtEntry C editor)))"
    and "s = forceSelection D (stateAtEntry C editor)
               (merge D (getSelection D (stateAtEntry C editor))
                  \<lparr>anchorOffset = getEndOffset D (getSelection D (stateAtEntry C editor)),
                   focusOffset = getEndOffset D (getSelection D (stateAtEntry C editor))\<rparr>)"
  shows "sinceFlush C editor (editOnBeforeInput D C win editor e) = [PreventDefault, Update s]
     \<and> ed (editOnBeforeInput D C win editor e)
         = editor_update C s (ed (afterProp D C editor chars))
     \<and> ((\<forall>x y. getCurrentContent D (forceSelection D x y) = getCurrentContent D x)
          \<longrightarrow> getCurrentContent D s = getCurrentContent D (stateAtEntry C editor))"
  using selected_same(1,2) [OF assms(1-5), of win] assms(6) by simp

theorem same_text_collapses_selection_witness:
  "sinceFlush (docComponent None) (docEditor None (docState (js ''abcd'') 1 3))
     (editOnBeforeInput (docDeps False) (docComponent None) (caretIn (js ''abcd''))
        (docEditor None (docState (js ''abcd'') 1 3)) \<lparr>data = Some (js ''bc'')\<rparr>)
   = [PreventDefault, Update (docState (js ''abcd'') 3 3)]
   \<and> getCurrentContent (docDeps False) (docState (js ''abcd'') 3 3)
     = getCurrentContent (docDeps False) (docState (js ''abcd'') 1 3)"
proof -
  have h1: "data \<lparr>data = Some (js ''bc'')\<rparr> = Some (js ''bc'')" by simp
  have h2: "js ''bc'' \<noteq> []" by (simp add: js_codes)
  have h3: "\<not> propHandled (docDeps False) (docComponent None)
                (docEditor None (docState (js ''abcd'') 1 3)) (js ''bc'')"
    by (simp add: prop_absent)
  have h4: "\<not> isCollapsed (docDeps False)
       (getSelection (docDeps False)
          (stateAtEntry (docComponent None) (docEditor None (docState (js ''abcd'') 1 3))))"
    by (simp add: stateAtEntry_nothing_pending)
  have h5: "js ''bc''
     = slice (getPlainText (docDeps False)
                (getCurrentContent (docDeps False)
                   (stateAtEntry (docComponent None)
                      (docEditor None (docState (js ''abcd'') 1 3)))))
         (getStartOffset (docDeps False)
            (getSelection (docDeps False)
               (stateAtEntry (docComponent None)
                  (docEditor None (docState (js ''abcd'') 1 3)))))
         (getEndOffset (docDeps False)
            (getSelection (docDeps False)
               (stateAtEntry (docComponent None)
                  (docEditor None (docState (js ''abcd'') 1 3)))))"
    by (simp add: stateAtEntry_nothing_pending js_codes slice_def)
  have h6: "docState (js ''abcd'') 3 3
     = forceSelection (docDeps False)
         (stateAtEntry (docComponent None) (docEditor None (docState (js ''abcd'') 1 3)))
         (merge (docDeps False)
            (getSelection (docDeps False)
               (stateAtEntry (docComponent None)
                  (docEditor None (docState (js ''abcd'') 1 3))))
            \<lparr>anchorOffset =
               getEndOffset (docDeps False)
                 (getSelection (docDeps False)
                    (stateAtEntry (docComponent None)
                       (docEditor None (docState (js ''abcd'') 1 3)))),
             focusOffset =
               getEndOffset (docDeps False)
                 (getSelection (docDeps False)
                    (stateAtEntry (docComponent None)
                       (docEditor None (docState (js ''abcd'') 1 3))))\<rparr>)"
    by (simp add: stateAtEntry_nothing_pending docState_def)
  from same_text_collapses_selection [OF h1 h2 h3 h4 h5 h6, of "caretIn (js ''abcd'')"]
  show ?thesis by simp
qed

text \<open>
  C10. The prop is present and reports the event as handled: after the entry flush the
  handler calls \<^verbatim>\<open>preventDefault\<close> and nothing else (no replacement state is computed,
  no update, no callback scheduled), evaluates no heuristic, and leaves the editor's
  fields as the prop's own call left them.
\<close>

theorem handled_event_is_only_prevented:
  assumes "data e = Some chars" and "chars \<noteq> []"
    and "handleBeforeInput C = Some h"
    and "isEventHandled D (fst (h chars (stateAtEntry C editor) (ed (flushed C editor))))"
  shows "sinceFlush C editor (editOnBeforeInput D C win editor e) = [PreventDefault]
     \<and> ed (editOnBeforeInput D C win editor e)
         = snd (h chars (stateAtEntry C editor) (ed (flushed C editor)))
     \<and> performed (editOnBeforeInput D C win editor e) = []
     \<and> thrown (editOnBeforeInput D C win editor e) = None"
proof -
  have p: "propHandled D C editor chars"
    using assms(3,4)
    by (simp add: propHandled_def callHandleBeforeInput_def case_prod_unfold Let_def)
  have a: "ed (afterProp D C editor chars)
             = snd (h chars (stateAtEntry C editor) (ed (flushed C editor)))"
    using assms(3)
    by (simp add: afterProp_def callHandleBeforeInput_def case_prod_unfold Let_def)
  show ?thesis
    using handled [OF assms(1,2) p, of win] a by simp
qed

theorem handled_event_is_only_prevented_witness:
  "sinceFlush (docComponent (Some handlesAll)) (docEditor None (docState (js ''ab'') 1 1))
     (editOnBeforeInput (docDeps False) (docComponent (Some handlesAll))
        (caretIn (js ''ab'')) (docEditor None (docState (js ''ab'') 1 1))
        \<lparr>data = Some (js ''c'')\<rparr>)
   = [PreventDefault]
   \<and> ed (editOnBeforeInput (docDeps False) (docComponent (Some handlesAll))
        (caretIn (js ''ab'')) (docEditor None (docState (js ''ab'') 1 1))
        \<lparr>data = Some (js ''c'')\<rparr>)
     = docEditor None (docState (js ''ab'') 1 1)"
  using handled_event_is_only_prevented [of "\<lparr>data = Some (js ''c'')\<rparr>" "js ''c''"
      "docComponent (Some handlesAll)" handlesAll "docDeps False"
      "docEditor None (docState (js ''ab'') 1 1)" "caretIn (js ''ab'')"]
  by (simp add: js_codes handlesAll_def flushed_nothing_pending stateAtEntry_nothing_pending
      enter_def)

end
